theory Spec2Isabelle
  imports Main
begin

section \<open>Python exceptions\<close>

text \<open>
  The exceptions the two service modules and the HTTP layer raise, catch or let pass.
  An exception is a value; a call that may raise returns \<open>exn + 'a\<close> with \<open>Inl\<close> the
  raised exception. The string carried by a constructor is what \<open>str(e)\<close> yields;
  \<open>OtherException\<close> stands for every further subclass of \<open>Exception\<close> (class name,
  message), \<open>NonException\<close> for a \<open>BaseException\<close> that is not an \<open>Exception\<close>
  (\<open>KeyboardInterrupt\<close>, \<open>SystemExit\<close>), which \<open>except Exception\<close> does not catch.
  The last argument of the three exceptions raised with \<open>raise ... from e\<close> is the cause.
\<close>

datatype exn =
    ClientError string
  | GitCommandError string
  | ValueError string
  | TypeError string
  | OtherException string string
  | NonException string string
  | FileServiceError string exn
  | RepositoryCloneError string exn
  | HTTPException nat string exn

text \<open>\<open>isinstance(e, Exception)\<close>.\<close>

fun is_Exception :: "exn \<Rightarrow> bool" where
  "is_Exception (NonException c m) = False"
| "is_Exception e = True"

text \<open>\<open>isinstance(e, ClientError)\<close>, \<open>isinstance(e, FileServiceError)\<close>, and so on.\<close>

fun is_ClientError :: "exn \<Rightarrow> bool" where
  "is_ClientError (ClientError m) = True"
| "is_ClientError e = False"

fun is_GitCommandError :: "exn \<Rightarrow> bool" where
  "is_GitCommandError (GitCommandError m) = True"
| "is_GitCommandError e = False"

fun is_FileServiceError :: "exn \<Rightarrow> bool" where
  "is_FileServiceError (FileServiceError m c) = True"
| "is_FileServiceError e = False"

fun is_RepositoryCloneError :: "exn \<Rightarrow> bool" where
  "is_RepositoryCloneError (RepositoryCloneError m c) = True"
| "is_RepositoryCloneError e = False"

text \<open>\<open>str(e)\<close>; Starlette's \<open>HTTPException\<close> prints as \<open>status_code: detail\<close>.\<close>

fun digits_of :: "nat \<Rightarrow> nat \<Rightarrow> string" where
  "digits_of 0 n = []"
| "digits_of (Suc k) n =
     (if n < 10 then [char_of (48 + n)]
      else digits_of k (n div 10) @ [char_of (48 + n mod 10)])"

definition str_nat :: "nat \<Rightarrow> string" where
  "str_nat n = digits_of (Suc n) n"

fun str_exn :: "exn \<Rightarrow> string" where
  "str_exn (ClientError m) = m"
| "str_exn (GitCommandError m) = m"
| "str_exn (ValueError m) = m"
| "str_exn (TypeError m) = m"
| "str_exn (OtherException c m) = m"
| "str_exn (NonException c m) = m"
| "str_exn (FileServiceError m c) = m"
| "str_exn (RepositoryCloneError m c) = m"
| "str_exn (HTTPException s d c) = str_nat s @ '': '' @ d"

section \<open>services/git.py\<close>

text \<open>
  GitPython, \<open>shutil\<close> and the file system are the environment of the workflow. A call
  into them takes the world \<open>'w\<close> (working tree, remote, disk) and returns its outcome
  with the world after it. \<open>'r\<close> is the \<open>git.Repo\<close> object.
\<close>

record push_info =
  flags :: int

record ('r, 'w) git_lib =
  clone_from :: "string \<Rightarrow> string \<Rightarrow> 'w \<Rightarrow> (exn + 'r) \<times> 'w"
  index_add :: "'r \<Rightarrow> string list \<Rightarrow> 'w \<Rightarrow> (exn + unit) \<times> 'w"
  index_commit :: "'r \<Rightarrow> string \<Rightarrow> 'w \<Rightarrow> (exn + unit) \<times> 'w"
  origin_push :: "'r \<Rightarrow> string \<Rightarrow> 'w \<Rightarrow> (exn + push_info list) \<times> 'w"
  rmtree :: "string \<Rightarrow> 'w \<Rightarrow> (exn + unit) \<times> 'w"

text \<open>\<open>git.PushInfo.ERROR\<close>, the eleventh flag bit of GitPython's \<open>PushInfo\<close>.\<close>

definition PushInfo_ERROR :: int where
  "PushInfo_ERROR = 1024"

text \<open>
  \<open>clone_repo\<close>: only \<open>git.exc.GitCommandError\<close> is caught and re-raised as
  \<open>RepositoryCloneError\<close>; any other exception of \<open>clone_from\<close> passes through.
\<close>

definition clone_repo ::
  "('r, 'w) git_lib \<Rightarrow> string \<Rightarrow> string \<Rightarrow> 'w \<Rightarrow> (exn + 'r) \<times> 'w" where
  "clone_repo g repo_url clone_dir w =
     (case clone_from g repo_url clone_dir w of
        (Inr repo, w1) \<Rightarrow> (Inr repo, w1)
      | (Inl e, w1) \<Rightarrow>
          if is_GitCommandError e
          then (Inl (RepositoryCloneError (''Failed to clone repository from '' @ repo_url) e), w1)
          else (Inl e, w1))"

text \<open>The body of the \<open>try\<close> of \<open>commit_repo\<close>: add, commit, push, then read the push flags.\<close>

definition commit_push ::
  "('r, 'w) git_lib \<Rightarrow> 'r \<Rightarrow> string \<Rightarrow> string \<Rightarrow> 'w \<Rightarrow> (exn + string) \<times> 'w" where
  "commit_push g repo file_to_add commit_message w =
     (case index_add g repo [file_to_add] w of
        (Inl e, w1) \<Rightarrow> (Inl e, w1)
      | (Inr u1, w1) \<Rightarrow>
     (case index_commit g repo commit_message w1 of
        (Inl e, w2) \<Rightarrow> (Inl e, w2)
      | (Inr u2, w2) \<Rightarrow>
     (case origin_push g repo ''HEAD:main'' w2 of
        (Inl e, w3) \<Rightarrow> (Inl e, w3)
      | (Inr pushed, w3) \<Rightarrow>
          if pushed \<noteq> [] \<and> and (flags (hd pushed)) PushInfo_ERROR \<noteq> 0
          then (Inr ''Commit Failed during push!'', w3)
          else (Inr ''Commit Successful! Data Imported Successfully!'', w3))))"

text \<open>
  \<open>commit_repo\<close>: \<open>None\<close> for the repository returns at once; otherwise every
  \<open>Exception\<close> of the body becomes the returned string.
\<close>

definition commit_repo ::
  "('r, 'w) git_lib \<Rightarrow> 'r option \<Rightarrow> string \<Rightarrow> string \<Rightarrow> 'w \<Rightarrow> (exn + string) \<times> 'w" where
  "commit_repo g repo file_to_add commit_message w =
     (case repo of
        None \<Rightarrow> (Inr ''Commit Failed: Repository not cloned.'', w)
      | Some r \<Rightarrow>
          (case commit_push g r file_to_add commit_message w of
             (Inr s, w1) \<Rightarrow> (Inr s, w1)
           | (Inl e, w1) \<Rightarrow>
               if is_Exception e
               then (Inr (''An error occurred during commit/push: '' @ str_exn e), w1)
               else (Inl e, w1)))"

text \<open>
  \<open>Path(p).name\<close> of \<open>pathlib\<close> on POSIX: the last component of the path that is
  neither empty nor \<open>.\<close>, or the empty string.
\<close>

fun split_on :: "char \<Rightarrow> string \<Rightarrow> string list" where
  "split_on c [] = [[]]"
| "split_on c (x # xs) =
     (if x = c then [] # split_on c xs
      else (case split_on c xs of [] \<Rightarrow> [[x]] | p # ps \<Rightarrow> (x # p) # ps))"

definition path_name :: "string \<Rightarrow> string" where
  "path_name p =
     (case rev (filter (\<lambda>c. c \<noteq> [] \<and> c \<noteq> ''.'') (split_on CHR ''/'' p)) of
        [] \<Rightarrow> []
      | c # cs \<Rightarrow> c)"

text \<open>
  \<open>run_workflow\<close>: clone, commit and push, clean up. Only \<open>RepositoryCloneError\<close> is
  caught around the clone; the cleanup catches every \<open>Exception\<close> of \<open>shutil.rmtree\<close>.
\<close>

definition run_workflow ::
  "('r, 'w) git_lib \<Rightarrow> string \<Rightarrow> string \<Rightarrow> string \<Rightarrow> 'w \<Rightarrow> (exn + string) \<times> 'w" where
  "run_workflow g repo_url csv_file_path clone_dir w =
     (case clone_repo g repo_url clone_dir w of
        (Inl e, w1) \<Rightarrow>
          if is_RepositoryCloneError e
          then (Inr ''Workflow Failed at: Repository Cloning.'', w1)
          else (Inl e, w1)
      | (Inr local_repo, w1) \<Rightarrow>
          (let json_filename = path_name csv_file_path in
           case commit_repo g (Some local_repo) json_filename (''Add '' @ json_filename) w1 of
             (Inl e, w2) \<Rightarrow> (Inl e, w2)
           | (Inr result_message, w2) \<Rightarrow>
               (case rmtree g clone_dir w2 of
                  (Inr u, w3) \<Rightarrow> (Inr result_message, w3)
                | (Inl e, w3) \<Rightarrow>
                    if is_Exception e then (Inr result_message, w3) else (Inl e, w3))))"

section \<open>urllib.parse, as the URL rewriter uses it\<close>

text \<open>
  The named tuple \<open>ParseResult\<close> and the two functions of the standard library the
  rewriter calls. The library is a parameter of the model: \<open>urlparse\<close> may raise
  (\<open>ValueError\<close> on a malformed host), so both return \<open>exn + 'a\<close>.
\<close>

record ParseResult =
  scheme :: string
  netloc :: string
  path :: string
  params :: string
  query :: string
  fragment :: string

record urllib =
  urlparse :: "string \<Rightarrow> exn + ParseResult"
  urlunparse :: "ParseResult \<Rightarrow> exn + string"

text \<open>
  The functions themselves, as CPython 3.11 defines them in \<open>Lib/urllib/parse.py\<close>, for
  \<open>str\<close> arguments with the default \<open>scheme=''\<close> and \<open>allow_fragments=True\<close>. A
  character is a code point below 256; for a netloc of such characters \<open>_checknetloc\<close>
  never raises. The check of a bracketed host by the \<open>ipaddress\<close> module
  (\<open>_check_bracketed_host\<close>) is the parameter \<open>bracketed_host_error\<close>: the message of
  the \<open>ValueError\<close> it raises, or \<open>None\<close>.
\<close>

definition uses_netloc :: "string list" where
  "uses_netloc = ['''', ''ftp'', ''http'', ''gopher'', ''nntp'', ''telnet'',
     ''imap'', ''wais'', ''file'', ''mms'', ''https'', ''shttp'',
     ''snews'', ''prospero'', ''rtsp'', ''rtsps'', ''rtspu'', ''rsync'',
     ''svn'', ''svn+ssh'', ''sftp'', ''nfs'', ''git'', ''git+ssh'',
     ''ws'', ''wss'']"

definition uses_params :: "string list" where
  "uses_params = ['''', ''ftp'', ''hdl'', ''prospero'', ''http'', ''imap'',
     ''https'', ''shttp'', ''rtsp'', ''rtsps'', ''rtspu'', ''sip'',
     ''sips'', ''mms'', ''sftp'', ''tel'']"

definition scheme_chars :: string where
  "scheme_chars =
     ''abcdefghijklmnopqrstuvwxyz'' @ ''ABCDEFGHIJKLMNOPQRSTUVWXYZ'' @ ''0123456789'' @ ''+-.''"

definition is_ascii_alpha :: "char \<Rightarrow> bool" where
  "is_ascii_alpha c =
     (let n = (of_char c :: nat) in (65 \<le> n \<and> n \<le> 90) \<or> (97 \<le> n \<and> n \<le> 122))"

definition ascii_lower :: "char \<Rightarrow> char" where
  "ascii_lower c =
     (let n = (of_char c :: nat) in if 65 \<le> n \<and> n \<le> 90 then char_of (n + 32) else c)"

text \<open>\<open>s[:s.find(c)]\<close> and \<open>s[s.find(c)+1:]\<close>, used where \<open>c\<close> occurs in \<open>s\<close>.\<close>

definition before :: "char \<Rightarrow> string \<Rightarrow> string" where
  "before c s = takeWhile (\<lambda>x. x \<noteq> c) s"

definition after :: "char \<Rightarrow> string \<Rightarrow> string" where
  "after c s = tl (dropWhile (\<lambda>x. x \<noteq> c) s)"

text \<open>Membership in \<open>_WHATWG_C0_CONTROL_OR_SPACE\<close> and in \<open>_UNSAFE_URL_BYTES_TO_REMOVE\<close>.\<close>

definition is_c0_or_space :: "char \<Rightarrow> bool" where
  "is_c0_or_space c = ((of_char c :: nat) \<le> 32)"

definition is_unsafe_byte :: "char \<Rightarrow> bool" where
  "is_unsafe_byte c = (c = CHR 0x09 \<or> c = CHR 0x0D \<or> c = CHR 0x0A)"

text \<open>\<open>_splitnetloc(url, 2)\<close>: the netloc ends at the first of \<open>/\<close>, \<open>?\<close>, \<open>#\<close>.\<close>

definition is_netloc_delim :: "char \<Rightarrow> bool" where
  "is_netloc_delim c = (c = CHR ''/'' \<or> c = CHR ''?'' \<or> c = CHR ''#'')"

definition splitnetloc2 :: "string \<Rightarrow> string \<times> string" where
  "splitnetloc2 url =
     (takeWhile (\<lambda>c. \<not> is_netloc_delim c) (drop 2 url),
      dropWhile (\<lambda>c. \<not> is_netloc_delim c) (drop 2 url))"

text \<open>The scheme of \<open>urlsplit\<close>: a letter, then scheme characters, up to the first colon.\<close>

definition split_scheme :: "string \<Rightarrow> string \<times> string" where
  "split_scheme url =
     (if CHR '':'' \<in> set url \<and> before CHR '':'' url \<noteq> [] \<and> is_ascii_alpha (hd url)
         \<and> list_all (\<lambda>c. c \<in> set scheme_chars) (before CHR '':'' url)
      then (map ascii_lower (before CHR '':'' url), after CHR '':'' url)
      else ([], url))"

text \<open>The netloc of \<open>urlsplit\<close>, with its two checks of square brackets.\<close>

definition split_netloc :: "(string \<Rightarrow> string option) \<Rightarrow> string \<Rightarrow> exn + string \<times> string" where
  "split_netloc bracketed_host_error url =
     (if take 2 url = ''//''
      then (let (loc, rest) = splitnetloc2 url in
            if (CHR ''['' \<in> set loc \<and> CHR '']'' \<notin> set loc)
               \<or> (CHR '']'' \<in> set loc \<and> CHR ''['' \<notin> set loc)
            then Inl (ValueError ''Invalid IPv6 URL'')
            else if CHR ''['' \<in> set loc \<and> CHR '']'' \<in> set loc
            then (case bracketed_host_error (before CHR '']'' (after CHR ''['' loc)) of
                    Some msg \<Rightarrow> Inl (ValueError msg)
                  | None \<Rightarrow> Inr (loc, rest))
            else Inr (loc, rest))
      else Inr ([], url))"

text \<open>\<open>url.split(c, 1)\<close> where \<open>c\<close> occurs in \<open>url\<close>; otherwise the second part is empty.\<close>

definition split1 :: "char \<Rightarrow> string \<Rightarrow> string \<times> string" where
  "split1 c url = (if c \<in> set url then (before c url, after c url) else (url, []))"

definition urlsplit ::
  "(string \<Rightarrow> string option) \<Rightarrow> string
     \<Rightarrow> exn + (string \<times> string \<times> string \<times> string \<times> string)" where
  "urlsplit bracketed_host_error url0 =
     (let url1 = filter (\<lambda>c. \<not> is_unsafe_byte c) (dropWhile is_c0_or_space url0);
          (sch, url2) = split_scheme url1
      in case split_netloc bracketed_host_error url2 of
           Inl e \<Rightarrow> Inl e
         | Inr (loc, url3) \<Rightarrow>
             (let (url4, frag) = split1 CHR ''#'' url3;
                  (url5, qry) = split1 CHR ''?'' url4
              in Inr (sch, loc, url5, qry, frag)))"

text \<open>\<open>_splitparams\<close>, called on a string that contains a semicolon.\<close>

definition splitparams :: "string \<Rightarrow> string \<times> string" where
  "splitparams url =
     (if CHR ''/'' \<in> set url
      then (let k = length url - 1 - length (before CHR ''/'' (rev url));
                seg = drop k url
            in if CHR '';'' \<in> set seg
               then (take (k + length (before CHR '';'' seg)) url,
                     drop (k + length (before CHR '';'' seg) + 1) url)
               else (url, []))
      else (before CHR '';'' url, after CHR '';'' url))"

definition cpython_urlparse :: "(string \<Rightarrow> string option) \<Rightarrow> string \<Rightarrow> exn + ParseResult" where
  "cpython_urlparse bracketed_host_error url =
     (case urlsplit bracketed_host_error url of
        Inl e \<Rightarrow> Inl e
      | Inr (sch, loc, url1, qry, frag) \<Rightarrow>
          (let (url2, prm) =
                 (if sch \<in> set uses_params \<and> CHR '';'' \<in> set url1
                  then splitparams url1 else (url1, []))
           in Inr \<lparr>scheme = sch, netloc = loc, path = url2, params = prm,
                    query = qry, fragment = frag\<rparr>))"

text \<open>\<open>urlunsplit\<close> and \<open>urlunparse\<close>.\<close>

definition urlunsplit :: "string \<Rightarrow> string \<Rightarrow> string \<Rightarrow> string \<Rightarrow> string \<Rightarrow> string" where
  "urlunsplit sch loc url0 qry frag =
     (let url1 =
            (if loc \<noteq> [] \<or> (sch \<noteq> [] \<and> sch \<in> set uses_netloc) \<or> take 2 url0 = ''//''
             then ''//'' @ loc @ (if url0 \<noteq> [] \<and> take 1 url0 \<noteq> ''/'' then ''/'' @ url0 else url0)
             else url0);
          url2 = (if sch \<noteq> [] then sch @ '':'' @ url1 else url1);
          url3 = (if qry \<noteq> [] then url2 @ ''?'' @ qry else url2)
      in if frag \<noteq> [] then url3 @ ''#'' @ frag else url3)"

definition cpython_urlunparse :: "ParseResult \<Rightarrow> exn + string" where
  "cpython_urlunparse p =
     Inr (urlunsplit (scheme p) (netloc p)
            (if params p \<noteq> [] then path p @ '';'' @ params p else path p)
            (query p) (fragment p))"

definition cpython_urllib :: "(string \<Rightarrow> string option) \<Rightarrow> urllib" where
  "cpython_urllib bracketed_host_error =
     \<lparr>urlparse = cpython_urlparse bracketed_host_error, urlunparse = cpython_urlunparse\<rparr>"

section \<open>services/file\_service.py\<close>

text \<open>
  The body of the \<open>try\<close> of \<open>replace_url_endpoint\<close>: parse both URLs, replace scheme and
  netloc of the first by those of the second (\<open>parsed._replace\<close>), put it together again.
\<close>

definition replace_parsed :: "urllib \<Rightarrow> string \<Rightarrow> string \<Rightarrow> exn + string" where
  "replace_parsed lib url external_url =
     (case urlparse lib url of
        Inl e \<Rightarrow> Inl e
      | Inr parsed \<Rightarrow>
     (case urlparse lib external_url of
        Inl e \<Rightarrow> Inl e
      | Inr external_parsed \<Rightarrow>
          urlunparse lib
            (parsed\<lparr>scheme := scheme external_parsed, netloc := netloc external_parsed\<rparr>)))"

text \<open>
  \<open>replace_url_endpoint\<close>: \<open>not external_url\<close> holds for \<open>None\<close> and for the empty
  string; \<open>except Exception\<close> returns the original URL.
\<close>

definition replace_url_endpoint :: "urllib \<Rightarrow> string \<Rightarrow> string option \<Rightarrow> exn + string" where
  "replace_url_endpoint lib url external_url =
     (case external_url of
        None \<Rightarrow> Inr url
      | Some ext \<Rightarrow>
          if ext = [] then Inr url
          else (case replace_parsed lib url ext of
                  Inr new_url \<Rightarrow> Inr new_url
                | Inl e \<Rightarrow> if is_Exception e then Inr url else Inl e))"

text \<open>
  JSON-like Python values: what the backend's listing holds and what an endpoint returns.
  A dict is an association list of its items.
\<close>

datatype pyval =
    PNone
  | PBool bool
  | PInt int
  | PStr string
  | PList "pyval list"
  | PDict "(string \<times> pyval) list"

text \<open>\<open>d.get(key, default)\<close>.\<close>

definition dict_get :: "(string \<times> pyval) list \<Rightarrow> string \<Rightarrow> pyval \<Rightarrow> pyval" where
  "dict_get d k dflt = (case map_of d k of None \<Rightarrow> dflt | Some v \<Rightarrow> v)"

text \<open>\<open>len(v)\<close>: a \<open>TypeError\<close> for a value that has no length.\<close>

fun py_len :: "pyval \<Rightarrow> exn + nat" where
  "py_len (PStr s) = Inr (length s)"
| "py_len (PList xs) = Inr (length xs)"
| "py_len (PDict kvs) = Inr (length kvs)"
| "py_len PNone = Inl (TypeError ''object of type 'NoneType' has no len()'')"
| "py_len (PBool b) = Inl (TypeError ''object of type 'bool' has no len()'')"
| "py_len (PInt i) = Inl (TypeError ''object of type 'int' has no len()'')"

text \<open>\<open>core/settings.py\<close>: the storage fields of \<open>Settings\<close>.\<close>

record Settings =
  s3_endpoint_url :: string
  s3_bucket :: string
  s3_access_key :: string
  s3_secret_key :: string
  s3_external_url :: string
  s3_region :: string
  s3_upload_expiration :: int
  s3_use_ssl :: "bool option"

text \<open>The keyword arguments of \<open>boto3.client\<close>.\<close>

record client_params =
  service_name :: string
  region_name :: string
  endpoint_url :: string
  use_ssl :: "bool option"
  aws_access_key_id :: string
  aws_secret_access_key :: string

text \<open>
  Objects have an identity. The process counts the objects it has created; a new object
  takes the count as its \<open>id\<close>.
\<close>

record process =
  clients_created :: nat
  services_created :: nat

record s3_client =
  client_id :: nat
  config :: client_params

record FileService =
  service_id :: nat
  bucket_name :: string
  upload_expiration :: int
  external_url :: "string option"
  client :: s3_client

text \<open>\<open>boto3.client(**client_params)\<close>: a new client object.\<close>

definition boto3_client :: "client_params \<Rightarrow> process \<Rightarrow> s3_client \<times> process" where
  "boto3_client ps p =
     (\<lparr>client_id = clients_created p, config = ps\<rparr>,
      p\<lparr>clients_created := Suc (clients_created p)\<rparr>)"

text \<open>\<open>FileService.__init__\<close>, run on a new object.\<close>

definition FileService_init :: "Settings \<Rightarrow> process \<Rightarrow> FileService \<times> process" where
  "FileService_init settings p =
     (let client_params =
            \<lparr>service_name = ''s3'',
             region_name = s3_region settings,
             endpoint_url = s3_endpoint_url settings,
             use_ssl = s3_use_ssl settings,
             aws_access_key_id = s3_access_key settings,
             aws_secret_access_key = s3_secret_key settings\<rparr>;
          (c, p1) = boto3_client client_params p
      in (\<lparr>service_id = services_created p1,
           bucket_name = s3_bucket settings,
           upload_expiration = s3_upload_expiration settings,
           external_url =
             (if s3_external_url settings \<noteq> [] then Some (s3_external_url settings) else None),
           client = c\<rparr>,
          p1\<lparr>services_created := Suc (services_created p1)\<rparr>))"

text \<open>
  The three client methods the service calls. Their outcome is the backend's, a
  parameter of the model. \<open>generate_presigned_post\<close> takes its keyword arguments as a
  record; its result is the dict with the keys \<open>url\<close> and \<open>fields\<close>.
\<close>

record post_kwargs =
  Bucket :: string
  Key :: string
  Fields :: "(string \<times> string) list option"
  Conditions :: "string list list option"
  ExpiresIn :: int

record presigned_post =
  post_url :: string
  post_fields :: pyval

record s3_backend =
  generate_presigned_post :: "s3_client \<Rightarrow> post_kwargs \<Rightarrow> exn + presigned_post"
  generate_presigned_url ::
    "s3_client \<Rightarrow> string \<Rightarrow> (string \<times> string) list \<Rightarrow> int \<Rightarrow> exn + string"
  list_objects :: "s3_client \<Rightarrow> string \<Rightarrow> exn + (string \<times> pyval) list"

text \<open>
  The keyword arguments \<open>get_upload_link\<close> passes to \<open>generate_presigned_post\<close>:
  \<open>if content_type\<close> holds for a non-empty string only.
\<close>

definition upload_kwargs :: "FileService \<Rightarrow> string \<Rightarrow> string option \<Rightarrow> post_kwargs" where
  "upload_kwargs self filename content_type =
     (let conditions =
            (case content_type of
               None \<Rightarrow> []
             | Some ct \<Rightarrow> if ct = [] then [] else [[''starts-with'', ''$Content-Type'', ct]])
      in \<lparr>Bucket = bucket_name self,
          Key = filename,
          Fields =
            (case content_type of
               None \<Rightarrow> None
             | Some ct \<Rightarrow> if ct = [] then None else Some [(''Content-Type'', ct)]),
          Conditions = (if conditions = [] then None else Some conditions),
          ExpiresIn = upload_expiration self\<rparr>)"

text \<open>The body of the \<open>try\<close> of \<open>get_upload_link\<close>.\<close>

definition upload_link_body ::
  "urllib \<Rightarrow> s3_backend \<Rightarrow> FileService \<Rightarrow> string \<Rightarrow> string option \<Rightarrow> exn + pyval" where
  "upload_link_body lib s3 self filename content_type =
     (case generate_presigned_post s3 (client self) (upload_kwargs self filename content_type) of
        Inl e \<Rightarrow> Inl e
      | Inr post \<Rightarrow>
     (case replace_url_endpoint lib (post_url post) (external_url self) of
        Inl e \<Rightarrow> Inl e
      | Inr upload_url \<Rightarrow>
          Inr (PDict
            [(''upload_link'', PStr upload_url),
             (''fields'', post_fields post),
             (''filename'', PStr filename),
             (''expires_in'', PInt (upload_expiration self))])))"

text \<open>
  The two \<open>except\<close> clauses every operation of the service ends with: \<open>ClientError\<close>
  first, then \<open>Exception\<close>; each raises \<open>FileServiceError\<close> from the caught exception.
\<close>

definition wrap_errors :: "string \<Rightarrow> exn + 'a \<Rightarrow> exn + 'a" where
  "wrap_errors client_error_prefix r =
     (case r of
        Inr v \<Rightarrow> Inr v
      | Inl e \<Rightarrow>
          if is_ClientError e
          then Inl (FileServiceError (client_error_prefix @ str_exn e) e)
          else if is_Exception e
          then Inl (FileServiceError (''Unexpected error: '' @ str_exn e) e)
          else Inl e)"

definition get_upload_link ::
  "urllib \<Rightarrow> s3_backend \<Rightarrow> FileService \<Rightarrow> string \<Rightarrow> string option \<Rightarrow> exn + pyval" where
  "get_upload_link lib s3 self filename content_type =
     wrap_errors ''Failed to generate upload URL: ''
       (upload_link_body lib s3 self filename content_type)"

definition file_body :: "urllib \<Rightarrow> s3_backend \<Rightarrow> FileService \<Rightarrow> string \<Rightarrow> exn + pyval" where
  "file_body lib s3 self filename =
     (case generate_presigned_url s3 (client self) ''get_object''
             [(''Bucket'', bucket_name self), (''Key'', filename)] (upload_expiration self) of
        Inl e \<Rightarrow> Inl e
      | Inr presigned_url \<Rightarrow>
     (case replace_url_endpoint lib presigned_url (external_url self) of
        Inl e \<Rightarrow> Inl e
      | Inr download_url \<Rightarrow>
          Inr (PDict
            [(''download_link'', PStr download_url),
             (''filename'', PStr filename),
             (''expires_in'', PInt (upload_expiration self))])))"

definition get_file :: "urllib \<Rightarrow> s3_backend \<Rightarrow> FileService \<Rightarrow> string \<Rightarrow> exn + pyval" where
  "get_file lib s3 self filename =
     wrap_errors ''Failed to generate download URL: '' (file_body lib s3 self filename)"

definition file_list_body :: "s3_backend \<Rightarrow> FileService \<Rightarrow> exn + pyval" where
  "file_list_body s3 self =
     (case list_objects s3 (client self) (bucket_name self) of
        Inl e \<Rightarrow> Inl e
      | Inr response \<Rightarrow>
          (let files = dict_get response ''Contents'' (PList []) in
           case py_len files of
             Inl e \<Rightarrow> Inl e
           | Inr n \<Rightarrow> Inr files))"

definition get_file_list :: "s3_backend \<Rightarrow> FileService \<Rightarrow> exn + pyval" where
  "get_file_list s3 self = wrap_errors ''Failed to list files: '' (file_list_body s3 self)"

section \<open>api/importer.py\<close>


text \<open>
  The two \<open>except\<close> clauses of every endpoint: \<open>FileServiceError\<close> first, then
  \<open>Exception\<close>; each raises \<open>HTTPException\<close> with status 500.
\<close>

definition HTTP_500_INTERNAL_SERVER_ERROR :: nat where
  "HTTP_500_INTERNAL_SERVER_ERROR = 500"

definition to_http_exception :: "string \<Rightarrow> exn + 'a \<Rightarrow> exn + 'a" where
  "to_http_exception generic_detail r =
     (case r of
        Inr result \<Rightarrow> Inr result
      | Inl e \<Rightarrow>
          if is_FileServiceError e
          then Inl (HTTPException HTTP_500_INTERNAL_SERVER_ERROR (str_exn e) e)
          else if is_Exception e
          then Inl (HTTPException HTTP_500_INTERNAL_SERVER_ERROR generic_detail e)
          else Inl e)"

definition importer_get_upload_link ::
  "urllib \<Rightarrow> s3_backend \<Rightarrow> FileService \<Rightarrow> string \<Rightarrow> string option \<Rightarrow> exn + pyval" where
  "importer_get_upload_link lib s3 service filename content_type =
     to_http_exception ''Failed to generate upload link''
       (get_upload_link lib s3 service filename content_type)"

definition importer_get_file ::
  "urllib \<Rightarrow> s3_backend \<Rightarrow> FileService \<Rightarrow> string \<Rightarrow> exn + pyval" where
  "importer_get_file lib s3 service filename =
     to_http_exception ''Failed to generate download link'' (get_file lib s3 service filename)"

definition importer_get_file_list :: "s3_backend \<Rightarrow> FileService \<Rightarrow> exn + pyval" where
  "importer_get_file_list s3 service =
     to_http_exception ''Failed to generate file list'' (get_file_list s3 service)"

text \<open>
  What FastAPI sends for the outcome of an endpoint: the returned value as the JSON body
  with status 200; for an \<open>HTTPException\<close> its status code and the body
  \<open>{"detail": detail}\<close>; for any other exception the plain 500 of the server.
\<close>

record http_response =
  status_code :: nat
  body :: pyval

fun fastapi_response :: "exn + pyval \<Rightarrow> http_response" where
  "fastapi_response (Inr v) = \<lparr>status_code = 200, body = v\<rparr>"
| "fastapi_response (Inl (HTTPException s d c)) =
     \<lparr>status_code = s, body = PDict [(''detail'', PStr d)]\<rparr>"
| "fastapi_response (Inl e) = \<lparr>status_code = 500, body = PStr ''Internal Server Error''\<rparr>"





section \<open>What the properties speak of\<close>

text \<open>
  The libraries and the backend raise exceptions of the class \<open>Exception\<close> only: the
  hypothesis under which \<open>except Exception\<close> catches whatever they raise.
\<close>

definition only_Exceptions :: "exn + 'a \<Rightarrow> bool" where
  "only_Exceptions r = (case r of Inl e \<Rightarrow> is_Exception e | Inr v \<Rightarrow> True)"

definition urllib_raises_Exceptions :: "urllib \<Rightarrow> bool" where
  "urllib_raises_Exceptions lib =
     ((\<forall>u. only_Exceptions (urlparse lib u)) \<and> (\<forall>p. only_Exceptions (urlunparse lib p)))"

definition backend_raises_Exceptions :: "s3_backend \<Rightarrow> bool" where
  "backend_raises_Exceptions s3 =
     ((\<forall>c k. only_Exceptions (generate_presigned_post s3 c k))
      \<and> (\<forall>c m ps x. only_Exceptions (generate_presigned_url s3 c m ps x))
      \<and> (\<forall>c b. only_Exceptions (list_objects s3 c b)))"

text \<open>What leaves a service operation: a result or a \<open>FileServiceError\<close>.\<close>

definition result_or_FileServiceError :: "exn + 'a \<Rightarrow> bool" where
  "result_or_FileServiceError r = (case r of Inl e \<Rightarrow> is_FileServiceError e | Inr v \<Rightarrow> True)"

text \<open>
  A concrete configuration, process, service, backends and git library, at which the
  properties are evaluated: the settings of the specification's scenarios, a backend that
  answers every call, one that raises a given exception at every call, and a git library
  whose clone raises a given exception.
\<close>

definition example_settings :: Settings where
  "example_settings =
     \<lparr>s3_endpoint_url = ''http://internal-host:9000'',
      s3_bucket = ''test-bucket'',
      s3_access_key = ''access'',
      s3_secret_key = ''secret'',
      s3_external_url = ''http://localhost:9001'',
      s3_region = ''us-east-1'',
      s3_upload_expiration = 60,
      s3_use_ssl = Some False\<rparr>"

definition new_process :: process where
  "new_process = \<lparr>clients_created = 0, services_created = 0\<rparr>"

definition example_service :: FileService where
  "example_service = fst (FileService_init example_settings new_process)"

definition example_backend :: s3_backend where
  "example_backend =
     \<lparr>generate_presigned_post = (\<lambda>c k.
        Inr \<lparr>post_url = endpoint_url (config c) @ ''/'' @ Bucket k,
             post_fields = PDict ((''key'', PStr (Key k)) #
               (case Fields k of None \<Rightarrow> [] | Some fs \<Rightarrow> map (\<lambda>(a, b). (a, PStr b)) fs))\<rparr>),
      generate_presigned_url = (\<lambda>c m ps x.
        Inr (endpoint_url (config c) @ ''/test-bucket/report.csv?X-Amz-Expires=60'')),
      list_objects = (\<lambda>c b. Inr [(''Name'', PStr b), (''IsTruncated'', PBool False)])\<rparr>"

definition failing_backend :: "exn \<Rightarrow> s3_backend" where
  "failing_backend e =
     \<lparr>generate_presigned_post = (\<lambda>c k. Inl e),
      generate_presigned_url = (\<lambda>c m ps x. Inl e),
      list_objects = (\<lambda>c b. Inl e)\<rparr>"

definition git_clone_raises :: "exn \<Rightarrow> (unit, nat) git_lib" where
  "git_clone_raises e =
     \<lparr>clone_from = (\<lambda>u d w. (Inl e, w)),
      index_add = (\<lambda>r fs w. (Inr (), w)),
      index_commit = (\<lambda>r m w. (Inr (), w)),
      origin_push = (\<lambda>r s w. (Inr [], w)),
      rmtree = (\<lambda>d w. (Inr (), w))\<rparr>"

text \<open>
  The path and the parameters \<open>urlparse\<close> makes of the path of \<open>urlsplit\<close>, for a scheme
  that takes parameters: \<open>_splitparams\<close> when the path has a semicolon.
\<close>

definition split_params :: "string \<Rightarrow> string \<times> string" where
  "split_params u = (if CHR '';'' \<in> set u then splitparams u else (u, []))"

section \<open>Auxiliary facts\<close>

lemma only_Exceptions_Inl: "only_Exceptions (Inl e) = is_Exception e"
  by (simp add: only_Exceptions_def)

lemma only_Exceptions_InlD: "only_Exceptions r \<Longrightarrow> r = Inl e \<Longrightarrow> is_Exception e"
  by (simp add: only_Exceptions_def)

lemma split_netloc_only_ValueError:
  "split_netloc chk u = Inl e \<Longrightarrow> \<exists>m. e = ValueError m"
  by (auto simp: split_netloc_def Let_def split: if_splits option.splits prod.splits)

lemma urlsplit_only_ValueError:
  "urlsplit chk u = Inl e \<Longrightarrow> \<exists>m. e = ValueError m"
  by (auto simp: urlsplit_def Let_def split: sum.splits prod.splits dest: split_netloc_only_ValueError)

lemma cpython_urlparse_only_ValueError:
  "cpython_urlparse chk u = Inl e \<Longrightarrow> \<exists>m. e = ValueError m"
  by (auto simp: cpython_urlparse_def Let_def split: sum.splits prod.splits dest: urlsplit_only_ValueError)

lemma cpython_raises_Exceptions: "urllib_raises_Exceptions (cpython_urllib chk)"
  by (auto simp: urllib_raises_Exceptions_def only_Exceptions_def cpython_urllib_def
        cpython_urlunparse_def split: sum.splits dest: cpython_urlparse_only_ValueError)

lemma replace_parsed_only_Exceptions:
  "urllib_raises_Exceptions lib \<Longrightarrow> only_Exceptions (replace_parsed lib url ext)"
  by (auto simp: urllib_raises_Exceptions_def replace_parsed_def only_Exceptions_def
        split: sum.splits)

lemma replace_url_endpoint_returns:
  assumes "urllib_raises_Exceptions lib"
  shows "\<exists>r. replace_url_endpoint lib url ext = Inr r"
proof (cases ext)
  case None
  then show ?thesis by (simp add: replace_url_endpoint_def)
next
  case (Some x)
  show ?thesis
  proof (cases "replace_parsed lib url x")
    case (Inl e)
    with replace_parsed_only_Exceptions[OF assms, of url x] have "is_Exception e"
      by (simp add: only_Exceptions_def)
    with Inl Some show ?thesis by (simp add: replace_url_endpoint_def)
  next
    case (Inr r)
    with Some show ?thesis by (simp add: replace_url_endpoint_def)
  qed
qed

lemma replace_url_endpoint_fallback:
  assumes "urllib_raises_Exceptions lib" and "replace_parsed lib url x = Inl e"
  shows "replace_url_endpoint lib url (Some x) = Inr url"
proof -
  from replace_parsed_only_Exceptions[OF assms(1), of url x] assms(2) have "is_Exception e"
    by (simp add: only_Exceptions_def)
  with assms(2) show ?thesis by (simp add: replace_url_endpoint_def)
qed

lemma replace_parsed_parse_fails:
  "urlparse lib url = Inl e \<or> (\<exists>p. urlparse lib url = Inr p \<and> urlparse lib x = Inl e)
     \<Longrightarrow> replace_parsed lib url x = Inl e"
  by (auto simp: replace_parsed_def)

lemma wrap_errors_cases:
  "only_Exceptions r \<Longrightarrow>
     (\<exists>v. r = Inr v \<and> wrap_errors pfx r = Inr v)
     \<or> (\<exists>e. r = Inl e \<and> wrap_errors pfx r =
          Inl (FileServiceError
                ((if is_ClientError e then pfx else ''Unexpected error: '') @ str_exn e) e))"
  by (cases r) (auto simp: wrap_errors_def only_Exceptions_def)

lemma upload_link_body_only_Exceptions:
  assumes "urllib_raises_Exceptions lib" and "backend_raises_Exceptions s3"
  shows "only_Exceptions (upload_link_body lib s3 self filename content_type)"
proof (cases "generate_presigned_post s3 (client self) (upload_kwargs self filename content_type)")
  case (Inl e)
  from assms(2) have "only_Exceptions
      (generate_presigned_post s3 (client self) (upload_kwargs self filename content_type))"
    by (simp add: backend_raises_Exceptions_def)
  with Inl show ?thesis by (simp add: upload_link_body_def only_Exceptions_def)
next
  case (Inr post)
  from replace_url_endpoint_returns[OF assms(1)]
  obtain r where "replace_url_endpoint lib (post_url post) (external_url self) = Inr r" by blast
  with Inr show ?thesis by (simp add: upload_link_body_def only_Exceptions_def)
qed

lemma file_body_only_Exceptions:
  assumes "urllib_raises_Exceptions lib" and "backend_raises_Exceptions s3"
  shows "only_Exceptions (file_body lib s3 self filename)"
proof (cases "generate_presigned_url s3 (client self) ''get_object''
               [(''Bucket'', bucket_name self), (''Key'', filename)] (upload_expiration self)")
  case (Inl e)
  from assms(2) have "only_Exceptions (generate_presigned_url s3 (client self) ''get_object''
               [(''Bucket'', bucket_name self), (''Key'', filename)] (upload_expiration self))"
    by (simp add: backend_raises_Exceptions_def)
  with Inl show ?thesis by (simp add: file_body_def only_Exceptions_def)
next
  case (Inr u)
  from replace_url_endpoint_returns[OF assms(1)]
  obtain r where "replace_url_endpoint lib u (external_url self) = Inr r" by blast
  with Inr show ?thesis by (simp add: file_body_def only_Exceptions_def)
qed

lemma py_len_only_Exceptions: "only_Exceptions (py_len v)"
  by (cases v) (simp_all add: only_Exceptions_def)

lemma file_list_body_only_Exceptions:
  assumes "backend_raises_Exceptions s3"
  shows "only_Exceptions (file_list_body s3 self)"
proof (cases "list_objects s3 (client self) (bucket_name self)")
  case (Inl e)
  from assms have "only_Exceptions (list_objects s3 (client self) (bucket_name self))"
    by (simp add: backend_raises_Exceptions_def)
  with Inl show ?thesis by (simp add: file_list_body_def only_Exceptions_def)
next
  case (Inr response)
  with py_len_only_Exceptions[of "dict_get response ''Contents'' (PList [])"]
  show ?thesis
    by (simp add: file_list_body_def only_Exceptions_def Let_def split: sum.splits)
qed

lemma wrap_errors_result_or_FileServiceError:
  "only_Exceptions r \<Longrightarrow> result_or_FileServiceError (wrap_errors pfx r)"
  by (cases r) (auto simp: wrap_errors_def only_Exceptions_def result_or_FileServiceError_def)

lemma wrap_errors_Inl:
  "is_Exception e \<Longrightarrow> wrap_errors pfx (Inl e) =
     Inl (FileServiceError ((if is_ClientError e then pfx else ''Unexpected error: '') @ str_exn e) e)"
  by (simp add: wrap_errors_def)

lemma to_http_exception_FileServiceError:
  "fastapi_response (to_http_exception d (Inl (FileServiceError m c))) =
     \<lparr>status_code = 500, body = PDict [(''detail'', PStr m)]\<rparr>"
  by (simp add: to_http_exception_def HTTP_500_INTERNAL_SERVER_ERROR_def)

lemma to_http_exception_Exception:
  "is_Exception e \<Longrightarrow>
     fastapi_response (to_http_exception d (Inl e)) =
       \<lparr>status_code = 500, body = PDict [(''detail'', PStr
         (if is_FileServiceError e then str_exn e else d))]\<rparr>"
  by (simp add: to_http_exception_def HTTP_500_INTERNAL_SERVER_ERROR_def)

lemma to_http_exception_status:
  "only_Exceptions r \<Longrightarrow>
     (\<exists>v. r = Inr v \<and> fastapi_response (to_http_exception d r) = \<lparr>status_code = 200, body = v\<rparr>)
     \<or> (\<exists>m. fastapi_response (to_http_exception d r) =
            \<lparr>status_code = 500, body = PDict [(''detail'', PStr m)]\<rparr>)"
  by (cases r)
     (auto simp: to_http_exception_def only_Exceptions_def HTTP_500_INTERNAL_SERVER_ERROR_def)

lemma example_service_eq:
  "example_service =
     \<lparr>service_id = 0, bucket_name = ''test-bucket'', upload_expiration = 60,
      external_url = Some ''http://localhost:9001'',
      client = \<lparr>client_id = 0,
        config = \<lparr>service_name = ''s3'', region_name = ''us-east-1'',
                  endpoint_url = ''http://internal-host:9000'', use_ssl = Some False,
                  aws_access_key_id = ''access'', aws_secret_access_key = ''secret''\<rparr>\<rparr>\<rparr>"
  by (simp add: example_service_def FileService_init_def boto3_client_def example_settings_def
        new_process_def Let_def)

lemma failing_backend_raises_Exceptions:
  "is_Exception e \<Longrightarrow> backend_raises_Exceptions (failing_backend e)"
  by (simp add: backend_raises_Exceptions_def failing_backend_def only_Exceptions_def)

lemma example_backend_raises_Exceptions: "backend_raises_Exceptions example_backend"
  by (simp add: backend_raises_Exceptions_def example_backend_def only_Exceptions_def)

lemmas url_defs = cpython_urlparse_def cpython_urlunparse_def urlsplit_def urlunsplit_def
  split_scheme_def split_netloc_def splitnetloc2_def split1_def splitparams_def before_def
  after_def is_c0_or_space_def is_unsafe_byte_def is_netloc_delim_def is_ascii_alpha_def
  ascii_lower_def scheme_chars_def uses_params_def uses_netloc_def Let_def

lemma rewrite_example_post_url:
  "replace_url_endpoint (cpython_urllib (\<lambda>h. None)) ''http://internal-host:9000/test-bucket''
     (Some ''http://localhost:9001'') = Inr ''http://localhost:9001/test-bucket''"
  by (simp add: replace_url_endpoint_def replace_parsed_def cpython_urllib_def url_defs)

lemma rewrite_example_get_url:
  "replace_url_endpoint (cpython_urllib (\<lambda>h. None))
     ''http://internal-host:9000/test-bucket/report.csv?X-Amz-Expires=60''
     (Some ''http://localhost:9001'')
   = Inr ''http://localhost:9001/test-bucket/report.csv?X-Amz-Expires=60''"
  by (simp add: replace_url_endpoint_def replace_parsed_def cpython_urllib_def url_defs)

lemma example_upload_link:
  "get_upload_link (cpython_urllib (\<lambda>h. None)) example_backend example_service ''report.csv''
        (Some ''text/csv'')
     = Inr (PDict
        [(''upload_link'', PStr ''http://localhost:9001/test-bucket''),
         (''fields'', PDict [(''key'', PStr ''report.csv''), (''Content-Type'', PStr ''text/csv'')]),
         (''filename'', PStr ''report.csv''),
         (''expires_in'', PInt 60)])"
proof -
  have "upload_link_body (cpython_urllib (\<lambda>h. None)) example_backend example_service ''report.csv''
        (Some ''text/csv'')
     = Inr (PDict
        [(''upload_link'', PStr ''http://localhost:9001/test-bucket''),
         (''fields'', PDict [(''key'', PStr ''report.csv''), (''Content-Type'', PStr ''text/csv'')]),
         (''filename'', PStr ''report.csv''),
         (''expires_in'', PInt 60)])"
    unfolding upload_link_body_def example_service_eq
    by (simp add: example_backend_def upload_kwargs_def rewrite_example_post_url)
  then show ?thesis by (simp add: get_upload_link_def wrap_errors_def)
qed

lemma example_file:
  "get_file (cpython_urllib (\<lambda>h. None)) example_backend example_service ''report.csv''
     = Inr (PDict
        [(''download_link'', PStr ''http://localhost:9001/test-bucket/report.csv?X-Amz-Expires=60''),
         (''filename'', PStr ''report.csv''),
         (''expires_in'', PInt 60)])"
proof -
  have "file_body (cpython_urllib (\<lambda>h. None)) example_backend example_service ''report.csv''
     = Inr (PDict
        [(''download_link'', PStr ''http://localhost:9001/test-bucket/report.csv?X-Amz-Expires=60''),
         (''filename'', PStr ''report.csv''),
         (''expires_in'', PInt 60)])"
    unfolding file_body_def example_service_eq
    by (simp add: example_backend_def rewrite_example_get_url)
  then show ?thesis by (simp add: get_file_def wrap_errors_def)
qed

lemma get_upload_link_backend_call:
  "generate_presigned_post s3' (client self) (upload_kwargs self filename content_type)
     = generate_presigned_post s3 (client self) (upload_kwargs self filename content_type)
   \<Longrightarrow> get_upload_link lib s3' self filename content_type
     = get_upload_link lib s3 self filename content_type"
  by (simp add: get_upload_link_def upload_link_body_def)

lemma get_file_backend_call:
  "generate_presigned_url s3' (client self) ''get_object''
       [(''Bucket'', bucket_name self), (''Key'', filename)] (upload_expiration self)
     = generate_presigned_url s3 (client self) ''get_object''
       [(''Bucket'', bucket_name self), (''Key'', filename)] (upload_expiration self)
   \<Longrightarrow> get_file lib s3' self filename = get_file lib s3 self filename"
  by (simp add: get_file_def file_body_def)

lemma wrap_errors_Inr: "wrap_errors pfx r = Inr v \<Longrightarrow> r = Inr v"
  by (cases r) (auto simp: wrap_errors_def split: if_splits)

lemma get_upload_link_expires_in:
  assumes "get_upload_link lib s3 self filename content_type = Inr v"
  shows "\<exists>d. v = PDict d \<and> map_of d ''expires_in'' = Some (PInt (upload_expiration self))"
proof -
  from assms have "upload_link_body lib s3 self filename content_type = Inr v"
    by (simp add: get_upload_link_def wrap_errors_Inr)
  then show ?thesis
    by (auto simp: upload_link_body_def split: sum.splits)
qed

lemma get_file_expires_in:
  assumes "get_file lib s3 self filename = Inr v"
  shows "\<exists>d. v = PDict d \<and> map_of d ''expires_in'' = Some (PInt (upload_expiration self))"
proof -
  from assms have "file_body lib s3 self filename = Inr v"
    by (simp add: get_file_def wrap_errors_Inr)
  then show ?thesis
    by (auto simp: file_body_def split: sum.splits)
qed

lemma get_upload_link_success:
  assumes "generate_presigned_post backend (client self) (upload_kwargs self filename ct)
      = Inr post"
    and "replace_url_endpoint lib (post_url post) (external_url self) = Inr u"
  shows "get_upload_link lib backend self filename ct =
     Inr (PDict [(''upload_link'', PStr u), (''fields'', post_fields post),
                 (''filename'', PStr filename),
                 (''expires_in'', PInt (upload_expiration self))])"
  using assms by (simp add: get_upload_link_def upload_link_body_def wrap_errors_def)

lemma get_file_success:
  assumes "generate_presigned_url backend (client self) ''get_object''
        [(''Bucket'', bucket_name self), (''Key'', filename)] (upload_expiration self) = Inr url"
    and "replace_url_endpoint lib url (external_url self) = Inr u"
  shows "get_file lib backend self filename =
     Inr (PDict [(''download_link'', PStr u), (''filename'', PStr filename),
                 (''expires_in'', PInt (upload_expiration self))])"
  using assms by (simp add: get_file_def file_body_def wrap_errors_def)

section \<open>Error translation\<close>

text \<open>
  C1. Let the URL library and the backend raise exceptions of class \<open>Exception\<close> only.
  Then each of the three storage operations either returns or raises a
  \<open>FileServiceError\<close>, nothing else. When the backend call of an operation raises \<open>e\<close>,
  the operation raises \<open>FileServiceError\<close> with cause \<open>e\<close> and a message that ends in
  \<open>str(e)\<close> (prefixed by the operation's own text for a \<open>ClientError\<close>, by
  \<open>Unexpected error: \<close> otherwise), and the endpoint answers with status 500 and the
  body \<open>{"detail": message}\<close>. Each endpoint is the pair of handlers \<open>to_http_exception\<close>
  around its operation, with a generic detail of its own; and whatever exception of class
  \<open>Exception\<close> the awaited call raises, the pair of handlers answers with status 500 and a
  \<open>detail\<close>: the message of a \<open>FileServiceError\<close>, the generic detail of the endpoint for
  any other exception.
\<close>

theorem storage_errors_uniform:
  assumes "urllib_raises_Exceptions lib" and "backend_raises_Exceptions s3"
  shows
    "result_or_FileServiceError (get_upload_link lib s3 self filename content_type)
     \<and> result_or_FileServiceError (get_file lib s3 self filename)
     \<and> result_or_FileServiceError (get_file_list s3 self)
     \<and> (\<forall>e. generate_presigned_post s3 (client self)
               (upload_kwargs self filename content_type) = Inl e \<longrightarrow>
            get_upload_link lib s3 self filename content_type =
              Inl (FileServiceError
                ((if is_ClientError e then ''Failed to generate upload URL: ''
                  else ''Unexpected error: '') @ str_exn e) e)
            \<and> fastapi_response (importer_get_upload_link lib s3 self filename content_type) =
              \<lparr>status_code = 500, body = PDict [(''detail'', PStr
                ((if is_ClientError e then ''Failed to generate upload URL: ''
                  else ''Unexpected error: '') @ str_exn e))]\<rparr>)
     \<and> (\<forall>e. generate_presigned_url s3 (client self) ''get_object''
               [(''Bucket'', bucket_name self), (''Key'', filename)]
               (upload_expiration self) = Inl e \<longrightarrow>
            get_file lib s3 self filename =
              Inl (FileServiceError
                ((if is_ClientError e then ''Failed to generate download URL: ''
                  else ''Unexpected error: '') @ str_exn e) e)
            \<and> fastapi_response (importer_get_file lib s3 self filename) =
              \<lparr>status_code = 500, body = PDict [(''detail'', PStr
                ((if is_ClientError e then ''Failed to generate download URL: ''
                  else ''Unexpected error: '') @ str_exn e))]\<rparr>)
     \<and> (\<forall>e. list_objects s3 (client self) (bucket_name self) = Inl e \<longrightarrow>
            get_file_list s3 self =
              Inl (FileServiceError
                ((if is_ClientError e then ''Failed to list files: ''
                  else ''Unexpected error: '') @ str_exn e) e)
            \<and> fastapi_response (importer_get_file_list s3 self) =
              \<lparr>status_code = 500, body = PDict [(''detail'', PStr
                ((if is_ClientError e then ''Failed to list files: ''
                  else ''Unexpected error: '') @ str_exn e))]\<rparr>)
     \<and> importer_get_upload_link lib s3 self filename content_type =
           to_http_exception ''Failed to generate upload link''
             (get_upload_link lib s3 self filename content_type)
     \<and> importer_get_file lib s3 self filename =
           to_http_exception ''Failed to generate download link''
             (get_file lib s3 self filename)
     \<and> importer_get_file_list s3 self =
           to_http_exception ''Failed to generate file list'' (get_file_list s3 self)
     \<and> (\<forall>generic_detail e. is_Exception e \<longrightarrow>
            fastapi_response (to_http_exception generic_detail (Inl e)) =
              \<lparr>status_code = 500, body = PDict [(''detail'', PStr
                (if is_FileServiceError e then str_exn e else generic_detail))]\<rparr>)"
proof -
  note bodies = upload_link_body_only_Exceptions[OF assms, of self filename content_type]
    file_body_only_Exceptions[OF assms, of self filename]
    file_list_body_only_Exceptions[OF assms(2), of self]
  have a: "result_or_FileServiceError (get_upload_link lib s3 self filename content_type)"
    unfolding get_upload_link_def
    by (rule wrap_errors_result_or_FileServiceError) (rule bodies(1))
  have b: "result_or_FileServiceError (get_file lib s3 self filename)"
    unfolding get_file_def
    by (rule wrap_errors_result_or_FileServiceError) (rule bodies(2))
  have c: "result_or_FileServiceError (get_file_list s3 self)"
    unfolding get_file_list_def
    by (rule wrap_errors_result_or_FileServiceError) (rule bodies(3))
  have d: "get_upload_link lib s3 self filename content_type =
              Inl (FileServiceError
                ((if is_ClientError e then ''Failed to generate upload URL: ''
                  else ''Unexpected error: '') @ str_exn e) e)
            \<and> fastapi_response (importer_get_upload_link lib s3 self filename content_type) =
              \<lparr>status_code = 500, body = PDict [(''detail'', PStr
                ((if is_ClientError e then ''Failed to generate upload URL: ''
                  else ''Unexpected error: '') @ str_exn e))]\<rparr>"
    if h: "generate_presigned_post s3 (client self)
               (upload_kwargs self filename content_type) = Inl e" for e
  proof -
    from assms(2) have "only_Exceptions
        (generate_presigned_post s3 (client self) (upload_kwargs self filename content_type))"
      by (simp add: backend_raises_Exceptions_def)
    with h have ex: "is_Exception e"
      by (simp add: only_Exceptions_def)
    from h have "upload_link_body lib s3 self filename content_type = Inl e"
      by (simp add: upload_link_body_def)
    then have g: "get_upload_link lib s3 self filename content_type =
              Inl (FileServiceError
                ((if is_ClientError e then ''Failed to generate upload URL: ''
                  else ''Unexpected error: '') @ str_exn e) e)"
      by (simp add: get_upload_link_def wrap_errors_Inl[OF ex])
    show ?thesis
      unfolding importer_get_upload_link_def g
      by (simp only: to_http_exception_FileServiceError simp_thms)
  qed
  have e: "get_file lib s3 self filename =
              Inl (FileServiceError
                ((if is_ClientError e then ''Failed to generate download URL: ''
                  else ''Unexpected error: '') @ str_exn e) e)
            \<and> fastapi_response (importer_get_file lib s3 self filename) =
              \<lparr>status_code = 500, body = PDict [(''detail'', PStr
                ((if is_ClientError e then ''Failed to generate download URL: ''
                  else ''Unexpected error: '') @ str_exn e))]\<rparr>"
    if h: "generate_presigned_url s3 (client self) ''get_object''
               [(''Bucket'', bucket_name self), (''Key'', filename)]
               (upload_expiration self) = Inl e" for e
  proof -
    from assms(2) have "only_Exceptions
        (generate_presigned_url s3 (client self) ''get_object''
          [(''Bucket'', bucket_name self), (''Key'', filename)] (upload_expiration self))"
      by (simp add: backend_raises_Exceptions_def)
    with h have ex: "is_Exception e"
      by (simp add: only_Exceptions_def)
    from h have "file_body lib s3 self filename = Inl e"
      by (simp add: file_body_def)
    then have g: "get_file lib s3 self filename =
              Inl (FileServiceError
                ((if is_ClientError e then ''Failed to generate download URL: ''
                  else ''Unexpected error: '') @ str_exn e) e)"
      by (simp add: get_file_def wrap_errors_Inl[OF ex])
    show ?thesis
      unfolding importer_get_file_def g
      by (simp only: to_http_exception_FileServiceError simp_thms)
  qed
  have f: "get_file_list s3 self =
              Inl (FileServiceError
                ((if is_ClientError e then ''Failed to list files: ''
                  else ''Unexpected error: '') @ str_exn e) e)
            \<and> fastapi_response (importer_get_file_list s3 self) =
              \<lparr>status_code = 500, body = PDict [(''detail'', PStr
                ((if is_ClientError e then ''Failed to list files: ''
                  else ''Unexpected error: '') @ str_exn e))]\<rparr>"
    if h: "list_objects s3 (client self) (bucket_name self) = Inl e" for e
  proof -
    from assms(2) have "only_Exceptions
        (list_objects s3 (client self) (bucket_name self))"
      by (simp add: backend_raises_Exceptions_def)
    with h have ex: "is_Exception e"
      by (simp add: only_Exceptions_def)
    from h have "file_list_body s3 self = Inl e"
      by (simp add: file_list_body_def)
    then have g: "get_file_list s3 self =
              Inl (FileServiceError
                ((if is_ClientError e then ''Failed to list files: ''
                  else ''Unexpected error: '') @ str_exn e) e)"
      by (simp add: get_file_list_def wrap_errors_Inl[OF ex])
    show ?thesis
      unfolding importer_get_file_list_def g
      by (simp only: to_http_exception_FileServiceError simp_thms)
  qed
  from d have d': "\<forall>e. generate_presigned_post s3 (client self)
               (upload_kwargs self filename content_type) = Inl e \<longrightarrow>
            get_upload_link lib s3 self filename content_type =
              Inl (FileServiceError
                ((if is_ClientError e then ''Failed to generate upload URL: ''
                  else ''Unexpected error: '') @ str_exn e) e)
            \<and> fastapi_response (importer_get_upload_link lib s3 self filename content_type) =
              \<lparr>status_code = 500, body = PDict [(''detail'', PStr
                ((if is_ClientError e then ''Failed to generate upload URL: ''
                  else ''Unexpected error: '') @ str_exn e))]\<rparr>"
    by (intro allI impI)
  from e have e': "\<forall>e. generate_presigned_url s3 (client self) ''get_object''
               [(''Bucket'', bucket_name self), (''Key'', filename)]
               (upload_expiration self) = Inl e \<longrightarrow>
            get_file lib s3 self filename =
              Inl (FileServiceError
                ((if is_ClientError e then ''Failed to generate download URL: ''
                  else ''Unexpected error: '') @ str_exn e) e)
            \<and> fastapi_response (importer_get_file lib s3 self filename) =
              \<lparr>status_code = 500, body = PDict [(''detail'', PStr
                ((if is_ClientError e then ''Failed to generate download URL: ''
                  else ''Unexpected error: '') @ str_exn e))]\<rparr>"
    by (intro allI impI)
  from f have f': "\<forall>e. list_objects s3 (client self) (bucket_name self) = Inl e \<longrightarrow>
            get_file_list s3 self =
              Inl (FileServiceError
                ((if is_ClientError e then ''Failed to list files: ''
                  else ''Unexpected error: '') @ str_exn e) e)
            \<and> fastapi_response (importer_get_file_list s3 self) =
              \<lparr>status_code = 500, body = PDict [(''detail'', PStr
                ((if is_ClientError e then ''Failed to list files: ''
                  else ''Unexpected error: '') @ str_exn e))]\<rparr>"
    by (intro allI impI)
  have g1: "importer_get_upload_link lib s3 self filename content_type =
           to_http_exception ''Failed to generate upload link''
             (get_upload_link lib s3 self filename content_type)"
    by (simp add: importer_get_upload_link_def)
  have g2: "importer_get_file lib s3 self filename =
           to_http_exception ''Failed to generate download link''
             (get_file lib s3 self filename)"
    by (simp add: importer_get_file_def)
  have g3: "importer_get_file_list s3 self =
           to_http_exception ''Failed to generate file list'' (get_file_list s3 self)"
    by (simp add: importer_get_file_list_def)
  have h: "\<forall>generic_detail e. is_Exception e \<longrightarrow>
            fastapi_response (to_http_exception generic_detail (Inl e)) =
              \<lparr>status_code = 500, body = PDict [(''detail'', PStr
                (if is_FileServiceError e then str_exn e else generic_detail))]\<rparr>"
    by (intro allI impI) (rule to_http_exception_Exception)
  from a b c d' e' f' g1 g2 g3 h show ?thesis by (intro conjI)
qed

theorem storage_errors_uniform_witness:
  "get_upload_link (cpython_urllib (\<lambda>h. None)) (failing_backend (ClientError ''AccessDenied''))
      example_service ''report.csv'' (Some ''text/csv'')
     = Inl (FileServiceError ''Failed to generate upload URL: AccessDenied''
             (ClientError ''AccessDenied''))
   \<and> fastapi_response
       (importer_get_upload_link (cpython_urllib (\<lambda>h. None))
          (failing_backend (ClientError ''AccessDenied'')) example_service ''report.csv''
          (Some ''text/csv''))
     = \<lparr>status_code = 500,
        body = PDict [(''detail'', PStr ''Failed to generate upload URL: AccessDenied'')]\<rparr>
   \<and> fastapi_response
       (to_http_exception ''Failed to generate upload link'' (Inl (ValueError ''boom'')))
     = \<lparr>status_code = 500,
        body = PDict [(''detail'', PStr ''Failed to generate upload link'')]\<rparr>"
proof -
  have b: "backend_raises_Exceptions (failing_backend (ClientError ''AccessDenied''))"
    by (rule failing_backend_raises_Exceptions) simp
  have h: "generate_presigned_post (failing_backend (ClientError ''AccessDenied''))
             (client example_service) (upload_kwargs example_service ''report.csv'' (Some ''text/csv''))
           = Inl (ClientError ''AccessDenied'')"
    by (simp add: failing_backend_def)
  note t = storage_errors_uniform[OF cpython_raises_Exceptions b,
      of "\<lambda>h. None" example_service "''report.csv''" "Some ''text/csv''"]
  from t have t4: "\<forall>e. generate_presigned_post (failing_backend (ClientError ''AccessDenied''))
               (client example_service)
               (upload_kwargs example_service ''report.csv'' (Some ''text/csv'')) = Inl e \<longrightarrow>
            get_upload_link (cpython_urllib (\<lambda>h. None))
                (failing_backend (ClientError ''AccessDenied''))
                example_service ''report.csv'' (Some ''text/csv'') =
              Inl (FileServiceError
                ((if is_ClientError e then ''Failed to generate upload URL: ''
                  else ''Unexpected error: '') @ str_exn e) e)
            \<and> fastapi_response (importer_get_upload_link (cpython_urllib (\<lambda>h. None))
                (failing_backend (ClientError ''AccessDenied''))
                example_service ''report.csv'' (Some ''text/csv'')) =
              \<lparr>status_code = 500, body = PDict [(''detail'', PStr
                ((if is_ClientError e then ''Failed to generate upload URL: ''
                  else ''Unexpected error: '') @ str_exn e))]\<rparr>"
    by (elim conjE)
  from t4[rule_format, OF h] have u: "get_upload_link (cpython_urllib (\<lambda>h. None))
      (failing_backend (ClientError ''AccessDenied''))
      example_service ''report.csv'' (Some ''text/csv'')
     = Inl (FileServiceError ''Failed to generate upload URL: AccessDenied''
             (ClientError ''AccessDenied''))
   \<and> fastapi_response
       (importer_get_upload_link (cpython_urllib (\<lambda>h. None))
          (failing_backend (ClientError ''AccessDenied'')) example_service ''report.csv''
          (Some ''text/csv''))
     = \<lparr>status_code = 500,
        body = PDict [(''detail'', PStr ''Failed to generate upload URL: AccessDenied'')]\<rparr>"
    by simp
  from t have t10: "\<forall>generic_detail e. is_Exception e \<longrightarrow>
            fastapi_response (to_http_exception generic_detail (Inl e)) =
              \<lparr>status_code = 500, body = PDict [(''detail'', PStr
                (if is_FileServiceError e then str_exn e else generic_detail))]\<rparr>"
    by (elim conjE)
  have x: "is_Exception (ValueError ''boom'')" by simp
  from t10[rule_format, OF x, of "''Failed to generate upload link''"]
  have v: "fastapi_response
       (to_http_exception ''Failed to generate upload link'' (Inl (ValueError ''boom'')))
     = \<lparr>status_code = 500,
        body = PDict [(''detail'', PStr ''Failed to generate upload link'')]\<rparr>"
    by simp
  from u v show ?thesis by simp
qed

section \<open>The upload grant\<close>

text \<open>
  C2, as stated, fails for a content type that is supplied but empty: \<open>if content_type\<close>
  takes the empty string for an omitted one, so nothing is pinned.
\<close>

theorem empty_content_type_not_pinned:
  "upload_kwargs example_service ''report.csv'' (Some []) =
     \<lparr>Bucket = ''test-bucket'', Key = ''report.csv'', Fields = None, Conditions = None,
      ExpiresIn = 60\<rparr>"
  by (simp add: upload_kwargs_def example_service_eq)

text \<open>
  C2, amended. For every service, filename and content type: a supplied content type
  that is not empty pins the form field \<open>Content-Type\<close> to that value and attaches the
  condition \<open>["starts-with", "$Content-Type", value]\<close>; an omitted content type, and
  an empty one, pass \<open>Fields=None\<close> and \<open>Conditions=None\<close>. The operation consults the
  backend through this one call: backends that agree on it give the same result, and
  what the backend answers to it is what the operation returns, the form fields as they
  are and the URL through the rewriter.
\<close>

theorem upload_content_type_constraint:
  "(content_type \<noteq> [] \<longrightarrow>
      upload_kwargs self filename (Some content_type) =
        \<lparr>Bucket = bucket_name self, Key = filename,
         Fields = Some [(''Content-Type'', content_type)],
         Conditions = Some [[''starts-with'', ''$Content-Type'', content_type]],
         ExpiresIn = upload_expiration self\<rparr>)
   \<and> upload_kwargs self filename None =
        \<lparr>Bucket = bucket_name self, Key = filename, Fields = None, Conditions = None,
         ExpiresIn = upload_expiration self\<rparr>
   \<and> upload_kwargs self filename (Some []) = upload_kwargs self filename None
   \<and> (\<forall>backend'. generate_presigned_post backend' (client self) (upload_kwargs self filename ct)
             = generate_presigned_post backend (client self) (upload_kwargs self filename ct)
          \<longrightarrow> get_upload_link lib backend' self filename ct = get_upload_link lib backend self filename ct)
   \<and> (\<forall>post u. generate_presigned_post backend (client self) (upload_kwargs self filename ct)
               = Inr post
             \<and> replace_url_endpoint lib (post_url post) (external_url self) = Inr u
          \<longrightarrow> get_upload_link lib backend self filename ct =
                Inr (PDict [(''upload_link'', PStr u), (''fields'', post_fields post),
                            (''filename'', PStr filename),
                            (''expires_in'', PInt (upload_expiration self))]))"
proof -
  have a: "content_type \<noteq> [] \<longrightarrow>
      upload_kwargs self filename (Some content_type) =
        \<lparr>Bucket = bucket_name self, Key = filename,
         Fields = Some [(''Content-Type'', content_type)],
         Conditions = Some [[''starts-with'', ''$Content-Type'', content_type]],
         ExpiresIn = upload_expiration self\<rparr>"
    by (simp add: upload_kwargs_def Let_def)
  have b: "upload_kwargs self filename None =
        \<lparr>Bucket = bucket_name self, Key = filename, Fields = None, Conditions = None,
         ExpiresIn = upload_expiration self\<rparr>"
    by (simp add: upload_kwargs_def Let_def)
  have c: "upload_kwargs self filename (Some []) = upload_kwargs self filename None"
    by (simp add: upload_kwargs_def Let_def)
  have d: "\<forall>backend'. generate_presigned_post backend' (client self)
               (upload_kwargs self filename ct)
             = generate_presigned_post backend (client self) (upload_kwargs self filename ct)
          \<longrightarrow> get_upload_link lib backend' self filename ct
              = get_upload_link lib backend self filename ct"
    by (intro allI impI) (rule get_upload_link_backend_call)
  have e: "\<forall>post u. generate_presigned_post backend (client self) (upload_kwargs self filename ct)
               = Inr post
             \<and> replace_url_endpoint lib (post_url post) (external_url self) = Inr u
          \<longrightarrow> get_upload_link lib backend self filename ct =
                Inr (PDict [(''upload_link'', PStr u), (''fields'', post_fields post),
                            (''filename'', PStr filename),
                            (''expires_in'', PInt (upload_expiration self))])"
    by (intro allI impI, elim conjE) (rule get_upload_link_success)
  from a b c d e show ?thesis by (intro conjI)
qed

theorem upload_content_type_constraint_witness:
  "upload_kwargs example_service ''report.csv'' (Some ''text/csv'') =
     \<lparr>Bucket = ''test-bucket'', Key = ''report.csv'',
      Fields = Some [(''Content-Type'', ''text/csv'')],
      Conditions = Some [[''starts-with'', ''$Content-Type'', ''text/csv'']],
      ExpiresIn = 60\<rparr>
   \<and> get_upload_link (cpython_urllib (\<lambda>h. None))
        (example_backend\<lparr>list_objects := (\<lambda>c b. Inl (ClientError ''AccessDenied''))\<rparr>)
        example_service ''report.csv'' (Some ''text/csv'')
     = Inr (PDict
        [(''upload_link'', PStr ''http://localhost:9001/test-bucket''),
         (''fields'', PDict [(''key'', PStr ''report.csv''), (''Content-Type'', PStr ''text/csv'')]),
         (''filename'', PStr ''report.csv''),
         (''expires_in'', PInt 60)])"
proof -
  note t = upload_content_type_constraint[where content_type = "''text/csv''"
      and self = example_service and filename = "''report.csv''" and ct = "Some ''text/csv''"
      and backend = example_backend and lib = "cpython_urllib (\<lambda>h. None)"]
  have ne: "''text/csv'' \<noteq> []" by simp
  from t have t1: "''text/csv'' \<noteq> [] \<longrightarrow>
      upload_kwargs example_service ''report.csv'' (Some ''text/csv'') =
     \<lparr>Bucket = bucket_name example_service, Key = ''report.csv'',
      Fields = Some [(''Content-Type'', ''text/csv'')],
      Conditions = Some [[''starts-with'', ''$Content-Type'', ''text/csv'']],
      ExpiresIn = upload_expiration example_service\<rparr>"
    by (elim conjE)
  from t1[rule_format, OF ne]
  have k: "upload_kwargs example_service ''report.csv'' (Some ''text/csv'') =
     \<lparr>Bucket = bucket_name example_service, Key = ''report.csv'',
      Fields = Some [(''Content-Type'', ''text/csv'')],
      Conditions = Some [[''starts-with'', ''$Content-Type'', ''text/csv'']],
      ExpiresIn = upload_expiration example_service\<rparr>" .
  have b: "bucket_name example_service = ''test-bucket''"
    and x: "upload_expiration example_service = 60"
    by (simp_all add: example_service_eq)
  have agree: "generate_presigned_post
        (example_backend\<lparr>list_objects := (\<lambda>c b. Inl (ClientError ''AccessDenied''))\<rparr>)
        (client example_service) (upload_kwargs example_service ''report.csv'' (Some ''text/csv''))
      = generate_presigned_post example_backend
        (client example_service) (upload_kwargs example_service ''report.csv'' (Some ''text/csv''))"
    by simp
  from t have t4: "\<forall>backend'. generate_presigned_post backend' (client example_service)
          (upload_kwargs example_service ''report.csv'' (Some ''text/csv''))
        = generate_presigned_post example_backend (client example_service)
          (upload_kwargs example_service ''report.csv'' (Some ''text/csv''))
      \<longrightarrow> get_upload_link (cpython_urllib (\<lambda>h. None)) backend' example_service ''report.csv''
            (Some ''text/csv'')
        = get_upload_link (cpython_urllib (\<lambda>h. None)) example_backend example_service
            ''report.csv'' (Some ''text/csv'')"
    by (elim conjE)
  from t4[rule_format, OF agree] have g: "get_upload_link (cpython_urllib (\<lambda>h. None))
        (example_backend\<lparr>list_objects := (\<lambda>c b. Inl (ClientError ''AccessDenied''))\<rparr>)
        example_service ''report.csv'' (Some ''text/csv'')
      = get_upload_link (cpython_urllib (\<lambda>h. None)) example_backend
        example_service ''report.csv'' (Some ''text/csv'')" .
  from k have c1: "upload_kwargs example_service ''report.csv'' (Some ''text/csv'') =
     \<lparr>Bucket = ''test-bucket'', Key = ''report.csv'',
      Fields = Some [(''Content-Type'', ''text/csv'')],
      Conditions = Some [[''starts-with'', ''$Content-Type'', ''text/csv'']],
      ExpiresIn = 60\<rparr>"
    unfolding b x .
  from g example_upload_link show ?thesis
    by (intro conjI) (rule c1, rule trans)
qed

text \<open>
  C4. The upload expiration of a service is the configured \<open>s3_upload_expiration\<close>. It is
  the \<open>ExpiresIn\<close> argument of the upload call and the \<open>expires_in\<close> entry of every upload
  grant. \<open>get_file\<close> uses the same field: it consults the backend through the one call
  whose \<open>ExpiresIn\<close> argument is \<open>upload_expiration\<close>, and the \<open>expires_in\<close> entry of every
  download grant is \<open>upload_expiration\<close>: the grant is the URL the backend answers to
  that call, through the rewriter, with the filename and \<open>upload_expiration\<close>.
\<close>

theorem grants_use_upload_expiration:
  "upload_expiration (fst (FileService_init settings p)) = s3_upload_expiration settings
   \<and> ExpiresIn (upload_kwargs self filename content_type) = upload_expiration self
   \<and> (\<forall>v. get_upload_link lib backend self filename content_type = Inr v \<longrightarrow>
         (\<exists>d. v = PDict d \<and> map_of d ''expires_in'' = Some (PInt (upload_expiration self))))
   \<and> (\<forall>backend'. generate_presigned_url backend' (client self) ''get_object''
                [(''Bucket'', bucket_name self), (''Key'', filename)] (upload_expiration self)
             = generate_presigned_url backend (client self) ''get_object''
                [(''Bucket'', bucket_name self), (''Key'', filename)] (upload_expiration self)
          \<longrightarrow> get_file lib backend' self filename = get_file lib backend self filename)
   \<and> (\<forall>v. get_file lib backend self filename = Inr v \<longrightarrow>
         (\<exists>d. v = PDict d \<and> map_of d ''expires_in'' = Some (PInt (upload_expiration self))))
   \<and> (\<forall>url u. generate_presigned_url backend (client self) ''get_object''
                [(''Bucket'', bucket_name self), (''Key'', filename)] (upload_expiration self)
               = Inr url
             \<and> replace_url_endpoint lib url (external_url self) = Inr u
          \<longrightarrow> get_file lib backend self filename =
                Inr (PDict [(''download_link'', PStr u), (''filename'', PStr filename),
                            (''expires_in'', PInt (upload_expiration self))]))"
proof -
  have a: "upload_expiration (fst (FileService_init settings p)) = s3_upload_expiration settings"
    by (simp add: FileService_init_def boto3_client_def Let_def)
  have b: "ExpiresIn (upload_kwargs self filename content_type) = upload_expiration self"
    by (simp add: upload_kwargs_def Let_def)
  have c: "\<forall>v. get_upload_link lib backend self filename content_type = Inr v \<longrightarrow>
         (\<exists>d. v = PDict d \<and> map_of d ''expires_in'' = Some (PInt (upload_expiration self)))"
    by (intro allI impI) (rule get_upload_link_expires_in)
  have d: "\<forall>backend'. generate_presigned_url backend' (client self) ''get_object''
                [(''Bucket'', bucket_name self), (''Key'', filename)] (upload_expiration self)
             = generate_presigned_url backend (client self) ''get_object''
                [(''Bucket'', bucket_name self), (''Key'', filename)] (upload_expiration self)
          \<longrightarrow> get_file lib backend' self filename = get_file lib backend self filename"
    by (intro allI impI) (rule get_file_backend_call)
  have e: "\<forall>v. get_file lib backend self filename = Inr v \<longrightarrow>
         (\<exists>d. v = PDict d \<and> map_of d ''expires_in'' = Some (PInt (upload_expiration self)))"
    by (intro allI impI) (rule get_file_expires_in)
  have f: "\<forall>url u. generate_presigned_url backend (client self) ''get_object''
                [(''Bucket'', bucket_name self), (''Key'', filename)] (upload_expiration self)
               = Inr url
             \<and> replace_url_endpoint lib url (external_url self) = Inr u
          \<longrightarrow> get_file lib backend self filename =
                Inr (PDict [(''download_link'', PStr u), (''filename'', PStr filename),
                            (''expires_in'', PInt (upload_expiration self))])"
    by (intro allI impI, elim conjE) (rule get_file_success)
  from a b c d e f show ?thesis by (intro conjI)
qed

theorem grants_use_upload_expiration_witness:
  "(\<exists>d. get_upload_link (cpython_urllib (\<lambda>h. None)) example_backend example_service
            ''report.csv'' (Some ''text/csv'') = Inr (PDict d)
         \<and> map_of d ''expires_in'' = Some (PInt 60))
   \<and> (\<exists>d. get_file (cpython_urllib (\<lambda>h. None)) example_backend example_service
            ''report.csv'' = Inr (PDict d)
         \<and> map_of d ''expires_in'' = Some (PInt 60))
   \<and> s3_upload_expiration example_settings = 60"
proof -
  note t = grants_use_upload_expiration[where settings = example_settings
      and p = new_process and lib = "cpython_urllib (\<lambda>h. None)" and backend = example_backend
      and self = example_service and filename = "''report.csv''"
      and content_type = "Some ''text/csv''"]
  have x: "upload_expiration example_service = 60"
    by (simp add: example_service_eq)
  from t have tu: "\<forall>v. get_upload_link (cpython_urllib (\<lambda>h. None)) example_backend
        example_service ''report.csv'' (Some ''text/csv'') = Inr v \<longrightarrow>
         (\<exists>d. v = PDict d \<and> map_of d ''expires_in'' = Some (PInt (upload_expiration example_service)))"
    by (elim conjE)
  from tu[rule_format, OF example_upload_link] x
  have u: "\<exists>d. get_upload_link (cpython_urllib (\<lambda>h. None))
            example_backend example_service ''report.csv'' (Some ''text/csv'') = Inr (PDict d)
         \<and> map_of d ''expires_in'' = Some (PInt 60)"
    unfolding example_upload_link by (simp only: sum.inject pyval.inject)
  from t have tf: "\<forall>v. get_file (cpython_urllib (\<lambda>h. None)) example_backend
        example_service ''report.csv'' = Inr v \<longrightarrow>
         (\<exists>d. v = PDict d \<and> map_of d ''expires_in'' = Some (PInt (upload_expiration example_service)))"
    by (elim conjE)
  from tf[rule_format, OF example_file] x
  have f: "\<exists>d. get_file (cpython_urllib (\<lambda>h. None)) example_backend
            example_service ''report.csv'' = Inr (PDict d)
         \<and> map_of d ''expires_in'' = Some (PInt 60)"
    unfolding example_file by (simp only: sum.inject pyval.inject)
  from t have t1: "upload_expiration (fst (FileService_init example_settings new_process))
      = s3_upload_expiration example_settings"
    by (elim conjE)
  from t1 x have s: "s3_upload_expiration example_settings = 60"
    by (simp add: example_service_def)
  from u f s show ?thesis by (intro conjI)
qed

section \<open>The URL rewriter\<close>

text \<open>
  C5. With no external URL the rewriter returns its input, whatever the URL and the URL
  library: \<open>replace_url_endpoint(url, None) = url\<close>. The empty string is taken for
  \<open>None\<close>: the rewriter returns its input for an empty override, and \<open>FileService\<close>
  stores \<open>None\<close> for an empty \<open>s3_external_url\<close>.
\<close>

theorem rewrite_without_external_url:
  "replace_url_endpoint lib url None = Inr url
   \<and> replace_url_endpoint lib url (Some []) = Inr url
   \<and> external_url (fst (FileService_init (settings\<lparr>s3_external_url := []\<rparr>) p)) = None
   \<and> replace_url_endpoint lib url
         (external_url (fst (FileService_init (settings\<lparr>s3_external_url := []\<rparr>) p))) = Inr url"
proof -
  have a: "replace_url_endpoint lib url None = Inr url"
    by (simp add: replace_url_endpoint_def)
  have b: "replace_url_endpoint lib url (Some []) = Inr url"
    by (simp add: replace_url_endpoint_def)
  have c: "external_url (fst (FileService_init (settings\<lparr>s3_external_url := []\<rparr>) p)) = None"
    by (simp add: FileService_init_def boto3_client_def Let_def)
  from a b c show ?thesis by simp
qed

text \<open>
  C7. Let the URL library raise exceptions of class \<open>Exception\<close> only, as
  \<open>urllib.parse\<close> does. Then \<open>replace_url_endpoint\<close> returns a string for every URL and
  every override, it never raises; and whenever parsing the URL or the override raises,
  or putting the URL together again raises, it returns the URL it was given.
\<close>

theorem replace_url_endpoint_never_raises:
  assumes "urllib_raises_Exceptions lib"
  shows "(\<exists>r. replace_url_endpoint lib url override = Inr r)
     \<and> (\<forall>ext e. override = Some ext
            \<and> (urlparse lib url = Inl e
                \<or> (\<exists>p. urlparse lib url = Inr p \<and> urlparse lib ext = Inl e))
          \<longrightarrow> replace_url_endpoint lib url override = Inr url)
     \<and> (\<forall>ext p pe e. override = Some ext
            \<and> urlparse lib url = Inr p \<and> urlparse lib ext = Inr pe
            \<and> urlunparse lib (p\<lparr>scheme := scheme pe, netloc := netloc pe\<rparr>) = Inl e
          \<longrightarrow> replace_url_endpoint lib url override = Inr url)"
proof -
  have a: "\<exists>r. replace_url_endpoint lib url override = Inr r"
    by (rule replace_url_endpoint_returns[OF assms])
  have b: "replace_url_endpoint lib url override = Inr url"
    if h: "override = Some ext
            \<and> (urlparse lib url = Inl e
                \<or> (\<exists>p. urlparse lib url = Inr p \<and> urlparse lib ext = Inl e))" for ext e
  proof -
    from h have "replace_parsed lib url ext = Inl e"
      by (intro replace_parsed_parse_fails) simp
    from replace_url_endpoint_fallback[OF assms this] h show ?thesis by simp
  qed
  have c: "replace_url_endpoint lib url override = Inr url"
    if h: "override = Some ext
            \<and> urlparse lib url = Inr p \<and> urlparse lib ext = Inr pe
            \<and> urlunparse lib (p\<lparr>scheme := scheme pe, netloc := netloc pe\<rparr>) = Inl e"
    for ext p pe e
  proof -
    from h have "replace_parsed lib url ext = Inl e"
      by (simp add: replace_parsed_def)
    from replace_url_endpoint_fallback[OF assms this] h show ?thesis by simp
  qed
  from a b c show ?thesis by blast
qed

theorem replace_url_endpoint_never_raises_witness:
  "replace_url_endpoint (cpython_urllib (\<lambda>h. None)) ''http://internal-host:9000/a.csv?X=1''
      (Some ''http://[localhost:9001'') = Inr ''http://internal-host:9000/a.csv?X=1''
   \<and> urlparse (cpython_urllib (\<lambda>h. None)) ''http://[localhost:9001''
      = Inl (ValueError ''Invalid IPv6 URL'')"
proof -
  have bad: "urlparse (cpython_urllib (\<lambda>h. None)) ''http://[localhost:9001''
      = Inl (ValueError ''Invalid IPv6 URL'')"
    by (simp add: cpython_urllib_def url_defs)
  have good: "\<exists>p. urlparse (cpython_urllib (\<lambda>h. None)) ''http://internal-host:9000/a.csv?X=1''
      = Inr p"
    by (simp add: cpython_urllib_def url_defs)
  note t = replace_url_endpoint_never_raises[OF cpython_raises_Exceptions[of "\<lambda>h. None"],
      where url = "''http://internal-host:9000/a.csv?X=1''"
      and override = "Some ''http://[localhost:9001''"]
  from t have t2: "\<forall>ext e. Some ''http://[localhost:9001'' = Some ext
            \<and> (urlparse (cpython_urllib (\<lambda>h. None)) ''http://internal-host:9000/a.csv?X=1''
                  = Inl e
                \<or> (\<exists>p. urlparse (cpython_urllib (\<lambda>h. None))
                        ''http://internal-host:9000/a.csv?X=1'' = Inr p
                     \<and> urlparse (cpython_urllib (\<lambda>h. None)) ext = Inl e))
          \<longrightarrow> replace_url_endpoint (cpython_urllib (\<lambda>h. None))
                ''http://internal-host:9000/a.csv?X=1'' (Some ''http://[localhost:9001'')
              = Inr ''http://internal-host:9000/a.csv?X=1''"
    by (elim conjE)
  from good obtain p where p: "urlparse (cpython_urllib (\<lambda>h. None))
      ''http://internal-host:9000/a.csv?X=1'' = Inr p" ..
  from t2[rule_format, of "''http://[localhost:9001''" "ValueError ''Invalid IPv6 URL''"] p bad
  have "replace_url_endpoint (cpython_urllib (\<lambda>h. None)) ''http://internal-host:9000/a.csv?X=1''
      (Some ''http://[localhost:9001'') = Inr ''http://internal-host:9000/a.csv?X=1''"
    by (simp only: simp_thms) blast
  with bad show ?thesis by (intro conjI)
qed

section \<open>Splitting strings\<close>

lemma before_notin: "c \<notin> set (before c s)"
  by (auto simp: before_def dest: set_takeWhileD)

lemma before_subset: "set (before c s) \<subseteq> set s"
  by (auto simp: before_def dest: set_takeWhileD)

lemma after_subset: "set (after c s) \<subseteq> set s"
proof -
  have "set (tl xs) \<subseteq> set xs" for xs :: string by (cases xs) auto
  then have "set (after c s) \<subseteq> set (dropWhile (\<lambda>x. x \<noteq> c) s)"
    by (simp add: after_def)
  also have "\<dots> \<subseteq> set s" by (auto dest: set_dropWhileD)
  finally show ?thesis .
qed

lemma before_append: "c \<notin> set xs \<Longrightarrow> before c (xs @ c # ys) = xs"
  by (induction xs) (auto simp: before_def)

lemma after_append: "c \<notin> set xs \<Longrightarrow> after c (xs @ c # ys) = ys"
  by (induction xs) (auto simp: after_def)

lemma before_after: "c \<in> set s \<Longrightarrow> s = before c s @ c # after c s"
proof -
  assume "c \<in> set s"
  then have "dropWhile (\<lambda>x. x \<noteq> c) s \<noteq> []" by (simp add: dropWhile_eq_Nil_conv) 
  moreover have "hd (dropWhile (\<lambda>x. x \<noteq> c) s) = c" if "dropWhile (\<lambda>x. x \<noteq> c) s \<noteq> []"
    using hd_dropWhile[OF that] by simp
  ultimately have "dropWhile (\<lambda>x. x \<noteq> c) s = c # tl (dropWhile (\<lambda>x. x \<noteq> c) s)"
    by (cases "dropWhile (\<lambda>x. x \<noteq> c) s") auto
  then have "takeWhile (\<lambda>x. x \<noteq> c) s @ c # tl (dropWhile (\<lambda>x. x \<noteq> c) s) = s"
    using takeWhile_dropWhile_id[of "\<lambda>x. x \<noteq> c" s] by simp
  then show ?thesis by (simp add: before_def after_def)
qed

lemma split1_append:
  "c \<notin> set xs \<Longrightarrow> split1 c (xs @ c # ys) = (xs, ys)"
  by (simp add: split1_def before_append after_append)

lemma split1_none: "c \<notin> set xs \<Longrightarrow> split1 c xs = (xs, [])"
  by (simp add: split1_def)

lemma split1_fst_notin: "c \<notin> set (fst (split1 c s))"
  by (simp add: split1_def before_notin)

lemma split1_fst_subset: "set (fst (split1 c s)) \<subseteq> set s"
  using before_subset by (auto simp: split1_def)

lemma split1_snd_subset: "set (snd (split1 c s)) \<subseteq> set s"
  using after_subset by (auto simp: split1_def)


section \<open>Characters\<close>

lemma char_eq_nat: "(c = d) = ((of_char c :: nat) = of_char d)"
  by simp

lemma scheme_chars_all:
  "\<forall>c\<in>set scheme_chars. ascii_lower c \<in> set scheme_chars \<and> \<not> is_unsafe_byte c
      \<and> c \<noteq> CHR '':'' \<and> ascii_lower (ascii_lower c) = ascii_lower c"
  by (simp add: scheme_chars_def ascii_lower_def is_unsafe_byte_def Let_def char_eq_nat
        del: of_char_eq_iff)

lemma scheme_char_props:
  assumes "c \<in> set scheme_chars"
  shows "ascii_lower c \<in> set scheme_chars" and "\<not> is_unsafe_byte c" and "c \<noteq> CHR '':''"
    and "ascii_lower (ascii_lower c) = ascii_lower c"
  using assms scheme_chars_all by blast+

lemma alpha_props:
  assumes "is_ascii_alpha c"
  shows "is_ascii_alpha (ascii_lower c)" and "\<not> is_c0_or_space c" and "c \<noteq> CHR ''/''"
  using assms by (auto simp: is_ascii_alpha_def ascii_lower_def is_c0_or_space_def Let_def)


section \<open>What urlsplit returns\<close>

lemma split_scheme_cases:
  assumes "split_scheme u = (sch, rest)"
  shows "set rest \<subseteq> set u"
    and "sch = [] \<or> (is_ascii_alpha (hd sch) \<and> list_all (\<lambda>c. c \<in> set scheme_chars) sch
                      \<and> map ascii_lower sch = sch)"
proof -
  show "set rest \<subseteq> set u"
    using assms after_subset[of "CHR '':''" u]
    by (auto simp: split_scheme_def split: if_splits)
  show "sch = [] \<or> (is_ascii_alpha (hd sch) \<and> list_all (\<lambda>c. c \<in> set scheme_chars) sch
                      \<and> map ascii_lower sch = sch)"
  proof (cases "sch = []")
    case True
    then show ?thesis by simp
  next
    case False
    with assms have c: "before CHR '':'' u \<noteq> []" "is_ascii_alpha (hd u)"
        "list_all (\<lambda>c. c \<in> set scheme_chars) (before CHR '':'' u)"
        and s: "sch = map ascii_lower (before CHR '':'' u)"
      by (auto simp: split_scheme_def split: if_splits)
    from c(1) have "hd (before CHR '':'' u) = hd u"
      by (cases u) (auto simp: before_def split: if_splits)
    with c(1,2) s have 1: "is_ascii_alpha (hd sch)"
      by (simp add: hd_map alpha_props(1))
    from c(3) s have 2: "list_all (\<lambda>c. c \<in> set scheme_chars) sch"
      by (auto simp: list_all_iff scheme_char_props(1))
    from c(3) s have 3: "map ascii_lower sch = sch"
      by (auto simp: list_all_iff scheme_char_props(4))
    from 1 2 3 show ?thesis by simp
  qed
qed

lemma split_netloc_cases:
  assumes "split_netloc chk u = Inr (loc, rest)"
  shows "set loc \<subseteq> set u" and "set rest \<subseteq> set u"
    and "\<forall>c\<in>set loc. \<not> is_netloc_delim c"
    and "\<not> ((CHR ''['' \<in> set loc \<and> CHR '']'' \<notin> set loc)
             \<or> (CHR '']'' \<in> set loc \<and> CHR ''['' \<notin> set loc))"
    and "CHR ''['' \<in> set loc \<and> CHR '']'' \<in> set loc
           \<longrightarrow> chk (before CHR '']'' (after CHR ''['' loc)) = None"
proof -
  have a: "set (takeWhile P (drop 2 u)) \<subseteq> set u" for P :: "char \<Rightarrow> bool"
    by (auto dest!: set_takeWhileD in_set_dropD)
  have b: "set (dropWhile P (drop 2 u)) \<subseteq> set u" for P :: "char \<Rightarrow> bool"
    by (auto dest!: set_dropWhileD in_set_dropD)
  have c: "\<forall>c\<in>set (takeWhile (\<lambda>c. \<not> is_netloc_delim c) (drop 2 u)). \<not> is_netloc_delim c"
    by (auto dest: set_takeWhileD)
  from assms have d: "(loc, rest) = ([], u) \<or> (loc, rest) = splitnetloc2 u"
    by (auto simp: split_netloc_def Let_def split: if_splits prod.splits option.splits)
  from d a b show "set loc \<subseteq> set u" and "set rest \<subseteq> set u"
    by (auto simp: splitnetloc2_def)
  from d c show "\<forall>c\<in>set loc. \<not> is_netloc_delim c"
    by (auto simp: splitnetloc2_def)
  from assms show "\<not> ((CHR ''['' \<in> set loc \<and> CHR '']'' \<notin> set loc)
             \<or> (CHR '']'' \<in> set loc \<and> CHR ''['' \<notin> set loc))"
    by (auto simp: split_netloc_def Let_def split: if_splits prod.splits option.splits)
  from assms show "CHR ''['' \<in> set loc \<and> CHR '']'' \<in> set loc
           \<longrightarrow> chk (before CHR '']'' (after CHR ''['' loc)) = None"
    by (auto simp: split_netloc_def Let_def split: if_splits prod.splits option.splits)
qed

text \<open>The components \<open>urlsplit\<close> returns.\<close>

lemma urlsplit_components:
  assumes "urlsplit chk u = Inr (sch, loc, pth, qry, frag)"
  shows "sch = [] \<or> (is_ascii_alpha (hd sch) \<and> list_all (\<lambda>c. c \<in> set scheme_chars) sch
                      \<and> map ascii_lower sch = sch)"
    and "\<forall>c\<in>set loc. \<not> is_netloc_delim c"
    and "\<not> ((CHR ''['' \<in> set loc \<and> CHR '']'' \<notin> set loc)
             \<or> (CHR '']'' \<in> set loc \<and> CHR ''['' \<notin> set loc))"
    and "CHR ''['' \<in> set loc \<and> CHR '']'' \<in> set loc
           \<longrightarrow> chk (before CHR '']'' (after CHR ''['' loc)) = None"
    and "CHR ''#'' \<notin> set pth" and "CHR ''?'' \<notin> set pth" and "CHR ''#'' \<notin> set qry"
    and "\<forall>c\<in>set (loc @ pth @ qry @ frag). \<not> is_unsafe_byte c"
proof -
  define u1 where "u1 = filter (\<lambda>c. \<not> is_unsafe_byte c) (dropWhile is_c0_or_space u)"
  obtain s0 u2 where ss: "split_scheme u1 = (s0, u2)" by (cases "split_scheme u1")
  from assms ss obtain l0 u3 where sn: "split_netloc chk u2 = Inr (l0, u3)"
    by (auto simp: urlsplit_def Let_def u1_def split: sum.splits prod.splits)
  obtain u4 f0 where sf: "split1 CHR ''#'' u3 = (u4, f0)" by (cases "split1 CHR ''#'' u3")
  obtain u5 q0 where sq: "split1 CHR ''?'' u4 = (u5, q0)" by (cases "split1 CHR ''?'' u4")
  from assms ss sn sf sq have eq: "sch = s0" "loc = l0" "pth = u5" "qry = q0" "frag = f0"
    by (simp_all add: urlsplit_def Let_def u1_def)
  have safe1: "\<forall>c\<in>set u1. \<not> is_unsafe_byte c" by (simp add: u1_def)
  note sc = split_scheme_cases[OF ss]
  note nc = split_netloc_cases[OF sn]
  from sf have u4: "u4 = fst (split1 CHR ''#'' u3)" and f0: "f0 = snd (split1 CHR ''#'' u3)"
    by simp_all
  from sq have u5: "u5 = fst (split1 CHR ''?'' u4)" and q0: "q0 = snd (split1 CHR ''?'' u4)"
    by simp_all
  have s4: "set u4 \<subseteq> set u3" and sf0: "set f0 \<subseteq> set u3"
    unfolding u4 f0 by (rule split1_fst_subset, rule split1_snd_subset)
  have s5: "set u5 \<subseteq> set u4" and sq0: "set q0 \<subseteq> set u4"
    unfolding u5 q0 by (rule split1_fst_subset, rule split1_snd_subset)
  have n4: "CHR ''#'' \<notin> set u4" unfolding u4 by (rule split1_fst_notin)
  have n5: "CHR ''?'' \<notin> set u5" unfolding u5 by (rule split1_fst_notin)
  show "sch = [] \<or> (is_ascii_alpha (hd sch) \<and> list_all (\<lambda>c. c \<in> set scheme_chars) sch
                      \<and> map ascii_lower sch = sch)"
    using sc(2) eq by simp
  show "\<forall>c\<in>set loc. \<not> is_netloc_delim c" using nc(3) eq by simp
  show "\<not> ((CHR ''['' \<in> set loc \<and> CHR '']'' \<notin> set loc)
             \<or> (CHR '']'' \<in> set loc \<and> CHR ''['' \<notin> set loc))"
    using nc(4) eq by simp
  show "CHR ''['' \<in> set loc \<and> CHR '']'' \<in> set loc
           \<longrightarrow> chk (before CHR '']'' (after CHR ''['' loc)) = None"
    using nc(5) eq by simp
  show "CHR ''#'' \<notin> set pth" using n4 s5 eq by auto
  show "CHR ''?'' \<notin> set pth" using n5 eq by simp
  show "CHR ''#'' \<notin> set qry" using n4 sq0 eq by auto
  have "set (loc @ pth @ qry @ frag) \<subseteq> set u1"
    using nc(1,2) sc(1) s4 sf0 s5 sq0 unfolding eq set_append by blast
  with safe1 show "\<forall>c\<in>set (loc @ pth @ qry @ frag). \<not> is_unsafe_byte c" by blast
qed


section \<open>Parsing what urlunsplit returns\<close>

lemma split_scheme_unsplit:
  assumes "sch \<noteq> []" and "is_ascii_alpha (hd sch)"
    and "list_all (\<lambda>c. c \<in> set scheme_chars) sch" and "map ascii_lower sch = sch"
  shows "split_scheme (sch @ CHR '':'' # rest) = (sch, rest)"
proof -
  from assms(3) have n: "CHR '':'' \<notin> set sch"
    using scheme_char_props(3) by (auto simp: list_all_iff)
  from assms(1) have h: "hd (sch @ CHR '':'' # rest) = hd sch" by simp
  show ?thesis
    unfolding split_scheme_def before_append[OF n] after_append[OF n] h
    using assms by simp
qed

lemma split_scheme_slash: "split_scheme (CHR ''/'' # rest) = ([], CHR ''/'' # rest)"
  by (simp add: split_scheme_def is_ascii_alpha_def)

lemma splitnetloc2_unsplit:
  assumes "\<forall>c\<in>set loc. \<not> is_netloc_delim c" and "rest = [] \<or> is_netloc_delim (hd rest)"
  shows "splitnetloc2 (''//'' @ loc @ rest) = (loc, rest)"
proof -
  from assms(2) have t: "takeWhile (\<lambda>c. \<not> is_netloc_delim c) rest = []"
    and d: "dropWhile (\<lambda>c. \<not> is_netloc_delim c) rest = rest"
    by (cases rest; auto)+
  from assms(1) show ?thesis
    by (simp add: splitnetloc2_def takeWhile_append2 dropWhile_append2 t d)
qed

lemma split_netloc_unsplit:
  assumes "\<forall>c\<in>set loc. \<not> is_netloc_delim c" and "rest = [] \<or> is_netloc_delim (hd rest)"
    and "\<not> ((CHR ''['' \<in> set loc \<and> CHR '']'' \<notin> set loc)
             \<or> (CHR '']'' \<in> set loc \<and> CHR ''['' \<notin> set loc))"
    and "CHR ''['' \<in> set loc \<and> CHR '']'' \<in> set loc
           \<longrightarrow> chk (before CHR '']'' (after CHR ''['' loc)) = None"
  shows "split_netloc chk (''//'' @ loc @ rest) = Inr (loc, rest)"
proof -
  have t: "take 2 (''//'' @ loc @ rest) = ''//''" by simp
  show ?thesis
    unfolding split_netloc_def t splitnetloc2_unsplit[OF assms(1,2)]
    using assms(3,4) by auto
qed

text \<open>\<open>_splitparams\<close> splits after the last slash.\<close>

lemma splitparams_last_slash:
  assumes "CHR ''/'' \<notin> set s"
  shows "splitparams (a @ CHR ''/'' # s) =
     (if CHR '';'' \<in> set s then (a @ CHR ''/'' # before CHR '';'' s, after CHR '';'' s)
      else (a @ CHR ''/'' # s, []))"
proof -
  from assms have r: "before CHR ''/'' (rev (a @ CHR ''/'' # s)) = rev s"
    using before_append[of "CHR ''/''" "rev s" "rev a"] by simp
  have k: "length (a @ CHR ''/'' # s) - 1 - length (rev s) = length a" by simp
  have seg: "drop (length a) (a @ CHR ''/'' # s) = CHR ''/'' # s" by simp
  have b: "before CHR '';'' (CHR ''/'' # s) = CHR ''/'' # before CHR '';'' s"
    by (simp add: before_def)
  have tk: "take (length (before CHR '';'' s)) s = before CHR '';'' s"
    unfolding before_def by (rule takeWhile_eq_take[symmetric])
  have dr: "drop (Suc (length (before CHR '';'' s))) s = after CHR '';'' s"
    unfolding before_def after_def by (simp add: dropWhile_eq_drop drop_Suc tl_drop)
  have in_seg: "CHR '';'' \<in> set (CHR ''/'' # s) \<longleftrightarrow> CHR '';'' \<in> set s" by simp
  show ?thesis
    unfolding splitparams_def r k seg Let_def b in_seg
    by (simp add: tk dr)
qed

lemma splitparams_no_slash:
  "CHR ''/'' \<notin> set u \<Longrightarrow> splitparams u = (before CHR '';'' u, after CHR '';'' u)"
  by (simp add: splitparams_def)

lemma split_params_stable:
  assumes "split_params u = (pth, prm)"
  shows "split_params (if prm \<noteq> [] then pth @ CHR '';'' # prm else pth) = (pth, prm)"
proof (cases "CHR '';'' \<in> set u")
  case False
  with assms show ?thesis by (auto simp: split_params_def)
next
  case semi: True
  show ?thesis
  proof (cases "CHR ''/'' \<in> set u")
    case False
    with semi assms have e: "pth = before CHR '';'' u" "prm = after CHR '';'' u"
      by (simp_all add: split_params_def splitparams_no_slash)
    from before_after[OF semi] e have u: "u = pth @ CHR '';'' # prm" by simp
    have n: "CHR '';'' \<notin> set pth" unfolding e by (rule before_notin)
    show ?thesis
    proof (cases "prm = []")
      case True
      with n show ?thesis by (simp add: split_params_def)
    next
      case False
      with u assms show ?thesis by simp
    qed
  next
    case True
    then obtain a s where u: "u = a @ CHR ''/'' # s" and ns: "CHR ''/'' \<notin> set s"
      by (auto dest: split_list_last)
    show ?thesis
    proof (cases "CHR '';'' \<in> set s")
      case False
      with semi assms u ns have "pth = u" "prm = []"
        by (simp_all add: split_params_def splitparams_last_slash)
      with assms show ?thesis by simp
    next
      case s_semi: True
      with semi assms u ns have e: "pth = a @ CHR ''/'' # before CHR '';'' s"
          "prm = after CHR '';'' s"
        by (simp_all add: split_params_def splitparams_last_slash)
      from before_after[OF s_semi] e u have u': "u = pth @ CHR '';'' # prm" by simp
      show ?thesis
      proof (cases "prm = []")
        case False
        with u' assms show ?thesis by simp
      next
        case True
        have nb: "CHR ''/'' \<notin> set (before CHR '';'' s)"
          using ns before_subset[of "CHR '';''" s] by auto
        have "split_params pth = (pth, [])"
          unfolding split_params_def e(1) splitparams_last_slash[OF nb]
          using before_notin[of "CHR '';''" s] by simp
        with True show ?thesis by simp
      qed
    qed
  qed
qed


lemma split_params_subset:
  assumes "split_params u = (a, b)"
  shows "set a \<subseteq> set u" and "set b \<subseteq> set u"
proof -
  have "set (fst (splitparams u)) \<subseteq> set u \<and> set (snd (splitparams u)) \<subseteq> set u"
    using before_subset[of "CHR '';''" u] after_subset[of "CHR '';''" u]
    by (auto simp: splitparams_def Let_def dest: in_set_takeD in_set_dropD)
  with assms show "set a \<subseteq> set u" and "set b \<subseteq> set u"
    by (auto simp: split_params_def split: if_splits)
qed

lemma urlunsplit_netloc:
  assumes "loc \<noteq> []" and "x = [] \<or> hd x = CHR ''/''"
  shows "urlunsplit sch loc x qry frag =
     (if sch = [] then [] else sch @ '':'') @ ''//'' @ loc @ x
       @ (if qry = [] then [] else CHR ''?'' # qry) @ (if frag = [] then [] else CHR ''#'' # frag)"
  using assms by (cases x) (auto simp: urlunsplit_def Let_def)

lemma urlsplit_unsplit:
  assumes sch: "sch = [] \<or> (is_ascii_alpha (hd sch) \<and> list_all (\<lambda>c. c \<in> set scheme_chars) sch
                      \<and> map ascii_lower sch = sch)"
    and loc: "loc \<noteq> []" "\<forall>c\<in>set loc. \<not> is_netloc_delim c"
      "\<not> ((CHR ''['' \<in> set loc \<and> CHR '']'' \<notin> set loc)
             \<or> (CHR '']'' \<in> set loc \<and> CHR ''['' \<notin> set loc))"
      "CHR ''['' \<in> set loc \<and> CHR '']'' \<in> set loc
           \<longrightarrow> chk (before CHR '']'' (after CHR ''['' loc)) = None"
    and x: "x = [] \<or> hd x = CHR ''/''" "CHR ''#'' \<notin> set x" "CHR ''?'' \<notin> set x"
    and qry: "CHR ''#'' \<notin> set qry"
    and safe: "\<forall>c\<in>set (loc @ x @ qry @ frag). \<not> is_unsafe_byte c"
  shows "urlsplit chk (urlunsplit sch loc x qry frag) = Inr (sch, loc, x, qry, frag)"
proof -
  define q where "q = (if qry = [] then [] else CHR ''?'' # qry)"
  define f where "f = (if frag = [] then [] else CHR ''#'' # frag)"
  define r where "r = x @ q @ f"
  define v where "v = ''//'' @ loc @ r"
  define u where "u = (if sch = [] then [] else sch @ '':'') @ v"
  have U: "urlunsplit sch loc x qry frag = u"
    unfolding u_def v_def r_def q_def f_def urlunsplit_netloc[OF loc(1) x(1)] by simp
  have sch_safe: "\<forall>c\<in>set sch. \<not> is_unsafe_byte c"
    using sch scheme_char_props(2) by (auto simp: list_all_iff)
  have "\<forall>c\<in>set u. \<not> is_unsafe_byte c"
    using safe sch_safe
    by (auto simp: u_def v_def r_def q_def f_def is_unsafe_byte_def)
  then have a: "filter (\<lambda>c. \<not> is_unsafe_byte c) u = u" by simp
  have hd_u: "u \<noteq> [] \<and> \<not> is_c0_or_space (hd u)"
  proof (cases "sch = []")
    case True
    then show ?thesis by (simp add: u_def v_def is_c0_or_space_def)
  next
    case False
    with sch have "is_ascii_alpha (hd sch)" by simp
    with False show ?thesis by (simp add: u_def alpha_props(2))
  qed
  then have b: "dropWhile is_c0_or_space u = u" by (cases u) auto
  have c: "split_scheme u = (sch, v)"
  proof (cases "sch = []")
    case True
    then show ?thesis by (simp add: u_def v_def split_scheme_slash)
  next
    case False
    with sch have "split_scheme (sch @ CHR '':'' # v) = (sch, v)"
      by (intro split_scheme_unsplit) simp_all
    with False show ?thesis by (simp add: u_def)
  qed
  have hd_r: "r = [] \<or> is_netloc_delim (hd r)"
    using x(1) by (cases x) (auto simp: r_def q_def f_def is_netloc_delim_def)
  have d: "split_netloc chk v = Inr (loc, r)"
    unfolding v_def by (rule split_netloc_unsplit[where chk = chk and loc = loc and rest = r, OF loc(2) hd_r loc(3,4)])
  have nq: "CHR ''#'' \<notin> set (x @ q)" using x(2) qry by (simp add: q_def)
  have e: "split1 CHR ''#'' r = (x @ q, frag)"
  proof (cases "frag = []")
    case True
    with nq show ?thesis by (simp add: r_def f_def split1_none)
  next
    case False
    with split1_append[OF nq, of frag] show ?thesis by (simp add: r_def f_def)
  qed
  have g: "split1 CHR ''?'' (x @ q) = (x, qry)"
  proof (cases "qry = []")
    case True
    with x(3) show ?thesis by (simp add: q_def split1_none)
  next
    case False
    with split1_append[OF x(3), of qry] show ?thesis by (simp add: q_def)
  qed
  show ?thesis
    unfolding U urlsplit_def a b Let_def c
    by (simp add: d e g)
qed

lemma cpython_urlparse_eq:
  "cpython_urlparse chk u =
     (case urlsplit chk u of
        Inl e \<Rightarrow> Inl e
      | Inr (sch, loc, pth, qry, frag) \<Rightarrow>
          Inr \<lparr>scheme = sch, netloc = loc,
               path = fst (if sch \<in> set uses_params then split_params pth else (pth, [])),
               params = snd (if sch \<in> set uses_params then split_params pth else (pth, [])),
               query = qry, fragment = frag\<rparr>)"
  by (simp add: cpython_urlparse_def split_params_def Let_def split_beta
        split: sum.split prod.split)

lemma cpython_urlparse_Inr:
  assumes "cpython_urlparse chk u = Inr p"
  shows "\<exists>pth. urlsplit chk u = Inr (scheme p, netloc p, pth, query p, fragment p)
     \<and> (if scheme p \<in> set uses_params then split_params pth else (pth, [])) = (path p, params p)"
proof (cases "urlsplit chk u")
  case (Inl e)
  with assms show ?thesis by (simp add: cpython_urlparse_eq)
next
  case (Inr t)
  obtain sch loc pth qry frag where t: "t = (sch, loc, pth, qry, frag)"
    by (cases t) 
  from assms Inr t have "p = \<lparr>scheme = sch, netloc = loc,
               path = fst (if sch \<in> set uses_params then split_params pth else (pth, [])),
               params = snd (if sch \<in> set uses_params then split_params pth else (pth, [])),
               query = qry, fragment = frag\<rparr>"
    by (simp add: cpython_urlparse_eq)
  with Inr t show ?thesis by simp
qed

lemma cpython_urlparse_of_urlsplit:
  assumes "urlsplit chk u = Inr (sch, loc, pth, qry, frag)"
    and "sch \<in> set uses_params" and "split_params pth = (a, b)"
  shows "cpython_urlparse chk u =
     Inr \<lparr>scheme = sch, netloc = loc, path = a, params = b, query = qry, fragment = frag\<rparr>"
  using assms by (simp add: cpython_urlparse_eq)

text \<open>Parsing what \<open>urlunparse\<close> returns for a parsed URL with the endpoint of another.\<close>

lemma roundtrip_core:
  assumes us: "urlsplit chk url = Inr (s0, l0, pth, q, f)"
    and pp: "split_params pth = (a, b)"
    and use: "urlsplit chk ext = Inr (se, le, pthe, qe, fe)"
    and loc: "le \<noteq> []" and spe: "se \<in> set uses_params"
    and abs: "(a = [] \<and> b = []) \<or> take 1 a = ''/''"
  shows "cpython_urlparse chk (urlunsplit se le (if b \<noteq> [] then a @ CHR '';'' # b else a) q f)
     = Inr \<lparr>scheme = se, netloc = le, path = a, params = b, query = q, fragment = f\<rparr>"
proof -
  note cu = urlsplit_components[OF us]
  note ce = urlsplit_components[OF use]
  define x where "x = (if b \<noteq> [] then a @ CHR '';'' # b else a)"
  note sub = split_params_subset[OF pp]
  have xs: "set x \<subseteq> insert CHR '';'' (set pth)"
    using sub by (auto simp: x_def)
  have x1: "x = [] \<or> hd x = CHR ''/''"
  proof (cases a)
    case Nil
    with abs show ?thesis by (simp add: x_def)
  next
    case (Cons c cs)
    with abs show ?thesis by (simp add: x_def)
  qed
  have x2: "CHR ''#'' \<notin> set x"
    using xs cu(5) by auto
  have x3: "CHR ''?'' \<notin> set x"
    using xs cu(6) by auto
  have s1: "\<forall>c\<in>set le. \<not> is_unsafe_byte c" using ce(8) by simp
  have s2: "\<forall>c\<in>set pth. \<not> is_unsafe_byte c" using cu(8) by simp
  have s3: "\<forall>c\<in>set q. \<not> is_unsafe_byte c" using cu(8) by simp
  have s4: "\<forall>c\<in>set f. \<not> is_unsafe_byte c" using cu(8) by simp
  have s5: "\<not> is_unsafe_byte CHR '';''" by (simp add: is_unsafe_byte_def)
  from xs s2 s5 have s6: "\<forall>c\<in>set x. \<not> is_unsafe_byte c" by blast
  from s1 s6 s3 s4 have safe: "\<forall>c\<in>set (le @ x @ q @ f). \<not> is_unsafe_byte c"
    by (simp add: ball_Un)
  have rt: "urlsplit chk (urlunsplit se le x q f) = Inr (se, le, x, q, f)"
    by (rule urlsplit_unsplit[where chk = chk, OF ce(1) loc ce(2,3,4) x1 x2 x3 cu(7) safe])
  have st: "split_params x = (a, b)"
    unfolding x_def by (rule split_params_stable[OF pp])
  show ?thesis
    unfolding x_def[symmetric] by (rule cpython_urlparse_of_urlsplit[OF rt spe st])
qed

lemma cpython_roundtrip:
  assumes p: "cpython_urlparse chk url = Inr p" and pe: "cpython_urlparse chk ext = Inr pe"
    and loc: "netloc pe \<noteq> []"
    and sp: "scheme p \<in> set uses_params" and spe: "scheme pe \<in> set uses_params"
    and abs: "(path p = [] \<and> params p = []) \<or> take 1 (path p) = ''/''"
  shows "\<exists>r. cpython_urlunparse (p\<lparr>scheme := scheme pe, netloc := netloc pe\<rparr>) = Inr r
     \<and> cpython_urlparse chk r = Inr (p\<lparr>scheme := scheme pe, netloc := netloc pe\<rparr>)"
proof -
  from cpython_urlparse_Inr[OF p] sp obtain pth where
    us: "urlsplit chk url = Inr (scheme p, netloc p, pth, query p, fragment p)"
    and pp: "split_params pth = (path p, params p)"
    by auto
  from cpython_urlparse_Inr[OF pe] obtain pthe where
    use: "urlsplit chk ext = Inr (scheme pe, netloc pe, pthe, query pe, fragment pe)"
    by auto
  note c = roundtrip_core[OF us pp use loc spe abs]
  have un: "cpython_urlunparse (p\<lparr>scheme := scheme pe, netloc := netloc pe\<rparr>)
      = Inr (urlunsplit (scheme pe) (netloc pe)
          (if params p \<noteq> [] then path p @ CHR '';'' # params p else path p)
          (query p) (fragment p))"
    by (simp add: cpython_urlunparse_def)
  have eq: "\<lparr>scheme = scheme pe, netloc = netloc pe, path = path p, params = params p,
             query = query p, fragment = fragment p\<rparr>
      = p\<lparr>scheme := scheme pe, netloc := netloc pe\<rparr>"
    by simp
  from c un show ?thesis unfolding eq by simp
qed

section \<open>What the rewriter replaces\<close>

lemma cpython_urlparse_Nil: "netloc pe \<noteq> [] \<Longrightarrow> cpython_urlparse chk ext = Inr pe \<Longrightarrow> ext \<noteq> []"
  by (auto simp: url_defs)

lemma replace_parsed_Inl:
  "urlparse lib url = Inl e \<or> urlparse lib ext = Inl e \<Longrightarrow> \<exists>e'. replace_parsed lib url ext = Inl e'"
  by (cases "urlparse lib url") (auto simp: replace_parsed_def)

lemma rewrite_fallback:
  assumes "urlparse (cpython_urllib chk) url = Inl e \<or> urlparse (cpython_urllib chk) ext = Inl e"
  shows "replace_url_endpoint (cpython_urllib chk) url (Some ext) = Inr url"
proof -
  from replace_parsed_Inl[OF assms] obtain e' where
    "replace_parsed (cpython_urllib chk) url ext = Inl e'" ..
  then show ?thesis
    by (rule replace_url_endpoint_fallback[OF cpython_raises_Exceptions])
qed

lemma rewrite_core:
  assumes p: "urlparse (cpython_urllib chk) url = Inr p"
    and pe: "urlparse (cpython_urllib chk) ext = Inr pe"
    and loc: "netloc pe \<noteq> []"
    and sp: "scheme p \<in> set uses_params" and spe: "scheme pe \<in> set uses_params"
    and abs: "(path p = [] \<and> params p = []) \<or> take 1 (path p) = ''/''"
  shows "replace_url_endpoint (cpython_urllib chk) url (Some ext)
      = Inr ((if scheme pe = [] then [] else scheme pe @ '':'') @ ''//'' @ netloc pe
             @ path p @ (if params p = [] then [] else CHR '';'' # params p)
             @ (if query p = [] then [] else CHR ''?'' # query p)
             @ (if fragment p = [] then [] else CHR ''#'' # fragment p))"
    and "\<exists>r. replace_url_endpoint (cpython_urllib chk) url (Some ext) = Inr r
           \<and> urlparse (cpython_urllib chk) r
               = Inr (p\<lparr>scheme := scheme pe, netloc := netloc pe\<rparr>)"
proof -
  from p have p': "cpython_urlparse chk url = Inr p" by (simp add: cpython_urllib_def)
  from pe have pe': "cpython_urlparse chk ext = Inr pe" by (simp add: cpython_urllib_def)
  from cpython_urlparse_Nil[OF loc pe'] have ne: "ext \<noteq> []" .
  define x where "x = (if params p \<noteq> [] then path p @ CHR '';'' # params p else path p)"
  have x1: "x = [] \<or> hd x = CHR ''/''"
  proof (cases "path p")
    case Nil
    with abs show ?thesis by (simp add: x_def)
  next
    case (Cons c cs)
    with abs show ?thesis by (simp add: x_def)
  qed
  have un: "urlunparse (cpython_urllib chk) (p\<lparr>scheme := scheme pe, netloc := netloc pe\<rparr>)
      = Inr (urlunsplit (scheme pe) (netloc pe) x (query p) (fragment p))"
    by (simp add: cpython_urllib_def cpython_urlunparse_def x_def)
  from p pe un have rp: "replace_parsed (cpython_urllib chk) url ext
      = Inr (urlunsplit (scheme pe) (netloc pe) x (query p) (fragment p))"
    by (simp add: replace_parsed_def)
  with ne have r: "replace_url_endpoint (cpython_urllib chk) url (Some ext)
      = Inr (urlunsplit (scheme pe) (netloc pe) x (query p) (fragment p))"
    by (simp add: replace_url_endpoint_def)
  have form: "urlunsplit (scheme pe) (netloc pe) x (query p) (fragment p)
      = (if scheme pe = [] then [] else scheme pe @ '':'') @ ''//'' @ netloc pe
             @ path p @ (if params p = [] then [] else CHR '';'' # params p)
             @ (if query p = [] then [] else CHR ''?'' # query p)
             @ (if fragment p = [] then [] else CHR ''#'' # fragment p)"
    unfolding urlunsplit_netloc[OF loc x1] by (simp add: x_def)
  from r form show "replace_url_endpoint (cpython_urllib chk) url (Some ext)
      = Inr ((if scheme pe = [] then [] else scheme pe @ '':'') @ ''//'' @ netloc pe
             @ path p @ (if params p = [] then [] else CHR '';'' # params p)
             @ (if query p = [] then [] else CHR ''?'' # query p)
             @ (if fragment p = [] then [] else CHR ''#'' # fragment p))"
    by (simp only:)
  from cpython_roundtrip[OF p' pe' loc sp spe abs] obtain r0 where
    r0: "cpython_urlunparse (p\<lparr>scheme := scheme pe, netloc := netloc pe\<rparr>) = Inr r0"
    and bk: "cpython_urlparse chk r0 = Inr (p\<lparr>scheme := scheme pe, netloc := netloc pe\<rparr>)"
    by blast
  from r0 un have "r0 = urlunsplit (scheme pe) (netloc pe) x (query p) (fragment p)"
    by (simp add: cpython_urllib_def)
  with bk r have "replace_url_endpoint (cpython_urllib chk) url (Some ext) = Inr r0
      \<and> urlparse (cpython_urllib chk) r0
          = Inr (p\<lparr>scheme := scheme pe, netloc := netloc pe\<rparr>)"
    by (simp add: cpython_urllib_def)
  then show "\<exists>r. replace_url_endpoint (cpython_urllib chk) url (Some ext) = Inr r
           \<and> urlparse (cpython_urllib chk) r
               = Inr (p\<lparr>scheme := scheme pe, netloc := netloc pe\<rparr>)"
    by (rule exI)
qed

text \<open>
  C3, as stated, fails. An override that \<open>urlparse\<close> rejects, here one with an opening
  square bracket that is never closed, leaves the URL as it was, with the internal host.
  And the path of a URL with a relative path is not kept character for character: it
  comes back with a leading slash.
\<close>

theorem rewrite_keeps_internal_host:
  "replace_url_endpoint (cpython_urllib (\<lambda>h. None))
      ''http://internal-host:9000/test-bucket/report.csv?X-Amz-Expires=60''
      (Some ''http://[localhost:9001'')
     = Inr ''http://internal-host:9000/test-bucket/report.csv?X-Amz-Expires=60''
   \<and> replace_url_endpoint (cpython_urllib (\<lambda>h. None))
      ''test-bucket/report.csv?X-Amz-Expires=60'' (Some ''http://localhost:9001'')
     = Inr ''http://localhost:9001/test-bucket/report.csv?X-Amz-Expires=60''
   \<and> urlparse (cpython_urllib (\<lambda>h. None)) ''test-bucket/report.csv?X-Amz-Expires=60''
     = Inr \<lparr>scheme = [], netloc = [], path = ''test-bucket/report.csv'', params = [],
            query = ''X-Amz-Expires=60'', fragment = []\<rparr>
   \<and> urlparse (cpython_urllib (\<lambda>h. None))
        ''http://localhost:9001/test-bucket/report.csv?X-Amz-Expires=60''
     = Inr \<lparr>scheme = ''http'', netloc = ''localhost:9001'', path = ''/test-bucket/report.csv'',
            params = [], query = ''X-Amz-Expires=60'', fragment = []\<rparr>"
  by (simp add: replace_url_endpoint_def replace_parsed_def cpython_urllib_def url_defs)

text \<open>
  C3, amended. With \<open>urlparse\<close> and \<open>urlunparse\<close> of CPython: let \<open>urlparse\<close> accept
  the URL and the override, let the override have a netloc, let the schemes of both be
  schemes that take parameters (\<open>http\<close>, \<open>https\<close> and the empty scheme are), and let
  the path of the URL be absolute, or empty with no parameters. Then
  \<open>replace_url_endpoint\<close> returns the scheme and the netloc of the override followed by
  the path, the parameters, the query and the fragment of the URL, character for
  character; and \<open>urlparse\<close> reads the result back as the components of the URL with
  the scheme and the netloc of the override, nothing else changed. When \<open>urlparse\<close>
  rejects the URL or the override, \<open>replace_url_endpoint\<close> returns the URL unchanged.
\<close>

theorem rewrite_replaces_scheme_and_netloc:
  "(\<forall>p pe. urlparse (cpython_urllib chk) url = Inr p
        \<and> urlparse (cpython_urllib chk) ext = Inr pe
        \<and> netloc pe \<noteq> []
        \<and> scheme p \<in> set uses_params \<and> scheme pe \<in> set uses_params
        \<and> ((path p = [] \<and> params p = []) \<or> take 1 (path p) = ''/'')
      \<longrightarrow> replace_url_endpoint (cpython_urllib chk) url (Some ext)
            = Inr ((if scheme pe = [] then [] else scheme pe @ '':'') @ ''//'' @ netloc pe
                   @ path p @ (if params p = [] then [] else CHR '';'' # params p)
                   @ (if query p = [] then [] else CHR ''?'' # query p)
                   @ (if fragment p = [] then [] else CHR ''#'' # fragment p))
          \<and> (\<exists>r. replace_url_endpoint (cpython_urllib chk) url (Some ext) = Inr r
                 \<and> urlparse (cpython_urllib chk) r
                     = Inr (p\<lparr>scheme := scheme pe, netloc := netloc pe\<rparr>)))
   \<and> (\<forall>e. urlparse (cpython_urllib chk) url = Inl e
            \<or> urlparse (cpython_urllib chk) ext = Inl e
         \<longrightarrow> replace_url_endpoint (cpython_urllib chk) url (Some ext) = Inr url)"
proof (intro conjI allI impI)
  fix p pe
  assume h: "urlparse (cpython_urllib chk) url = Inr p
        \<and> urlparse (cpython_urllib chk) ext = Inr pe
        \<and> netloc pe \<noteq> []
        \<and> scheme p \<in> set uses_params \<and> scheme pe \<in> set uses_params
        \<and> ((path p = [] \<and> params p = []) \<or> take 1 (path p) = ''/'')"
  from h have 1: "urlparse (cpython_urllib chk) url = Inr p" by (elim conjE)
  from h have 2: "urlparse (cpython_urllib chk) ext = Inr pe" by (elim conjE)
  from h have 3: "netloc pe \<noteq> []" by (elim conjE)
  from h have 4: "scheme p \<in> set uses_params" by (elim conjE)
  from h have 5: "scheme pe \<in> set uses_params" by (elim conjE)
  from h have 6: "(path p = [] \<and> params p = []) \<or> take 1 (path p) = ''/''" by (elim conjE)
  show "replace_url_endpoint (cpython_urllib chk) url (Some ext)
            = Inr ((if scheme pe = [] then [] else scheme pe @ '':'') @ ''//'' @ netloc pe
                   @ path p @ (if params p = [] then [] else CHR '';'' # params p)
                   @ (if query p = [] then [] else CHR ''?'' # query p)
                   @ (if fragment p = [] then [] else CHR ''#'' # fragment p))"
    by (rule rewrite_core(1)[OF 1 2 3 4 5 6])
  show "\<exists>r. replace_url_endpoint (cpython_urllib chk) url (Some ext) = Inr r
                 \<and> urlparse (cpython_urllib chk) r
                     = Inr (p\<lparr>scheme := scheme pe, netloc := netloc pe\<rparr>)"
    by (rule rewrite_core(2)[OF 1 2 3 4 5 6])
next
  fix e
  assume "urlparse (cpython_urllib chk) url = Inl e \<or> urlparse (cpython_urllib chk) ext = Inl e"
  then show "replace_url_endpoint (cpython_urllib chk) url (Some ext) = Inr url"
    by (rule rewrite_fallback)
qed

theorem rewrite_replaces_scheme_and_netloc_witness:
  "replace_url_endpoint (cpython_urllib (\<lambda>h. None))
      ''http://internal-host:9000/test-bucket/report.csv?X-Amz-Expires=60''
      (Some ''https://files.example.org:9001'')
     = Inr ''https://files.example.org:9001/test-bucket/report.csv?X-Amz-Expires=60''
   \<and> (\<exists>r. replace_url_endpoint (cpython_urllib (\<lambda>h. None))
          ''http://internal-host:9000/test-bucket/report.csv?X-Amz-Expires=60''
          (Some ''https://files.example.org:9001'') = Inr r
        \<and> urlparse (cpython_urllib (\<lambda>h. None)) r
          = Inr \<lparr>scheme = ''https'', netloc = ''files.example.org:9001'',
                 path = ''/test-bucket/report.csv'', params = [],
                 query = ''X-Amz-Expires=60'', fragment = []\<rparr>)"
proof -
  define p where "p = \<lparr>scheme = ''http'', netloc = ''internal-host:9000'',
      path = ''/test-bucket/report.csv'', params = [], query = ''X-Amz-Expires=60'',
      fragment = []\<rparr>"
  define pe where "pe = \<lparr>scheme = ''https'', netloc = ''files.example.org:9001'',
      path = [], params = [], query = [], fragment = []\<rparr>"
  have 1: "urlparse (cpython_urllib (\<lambda>h. None))
      ''http://internal-host:9000/test-bucket/report.csv?X-Amz-Expires=60'' = Inr p"
    by (simp add: p_def cpython_urllib_def url_defs)
  have 2: "urlparse (cpython_urllib (\<lambda>h. None)) ''https://files.example.org:9001'' = Inr pe"
    by (simp add: pe_def cpython_urllib_def url_defs)
  have 3: "netloc pe \<noteq> []" by (simp add: pe_def)
  have 4: "scheme p \<in> set uses_params" by (simp add: p_def uses_params_def)
  have 5: "scheme pe \<in> set uses_params" by (simp add: pe_def uses_params_def)
  have 6: "(path p = [] \<and> params p = []) \<or> take 1 (path p) = ''/''" by (simp add: p_def)
  note t = rewrite_replaces_scheme_and_netloc[where chk = "\<lambda>h. None"
      and url = "''http://internal-host:9000/test-bucket/report.csv?X-Amz-Expires=60''"
      and ext = "''https://files.example.org:9001''"]
  from t have t1: "\<forall>p pe. urlparse (cpython_urllib (\<lambda>h. None))
          ''http://internal-host:9000/test-bucket/report.csv?X-Amz-Expires=60'' = Inr p
        \<and> urlparse (cpython_urllib (\<lambda>h. None)) ''https://files.example.org:9001'' = Inr pe
        \<and> netloc pe \<noteq> []
        \<and> scheme p \<in> set uses_params \<and> scheme pe \<in> set uses_params
        \<and> ((path p = [] \<and> params p = []) \<or> take 1 (path p) = ''/'')
      \<longrightarrow> replace_url_endpoint (cpython_urllib (\<lambda>h. None))
              ''http://internal-host:9000/test-bucket/report.csv?X-Amz-Expires=60''
              (Some ''https://files.example.org:9001'')
            = Inr ((if scheme pe = [] then [] else scheme pe @ '':'') @ ''//'' @ netloc pe
                   @ path p @ (if params p = [] then [] else CHR '';'' # params p)
                   @ (if query p = [] then [] else CHR ''?'' # query p)
                   @ (if fragment p = [] then [] else CHR ''#'' # fragment p))
          \<and> (\<exists>r. replace_url_endpoint (cpython_urllib (\<lambda>h. None))
                   ''http://internal-host:9000/test-bucket/report.csv?X-Amz-Expires=60''
                   (Some ''https://files.example.org:9001'') = Inr r
                 \<and> urlparse (cpython_urllib (\<lambda>h. None)) r
                     = Inr (p\<lparr>scheme := scheme pe, netloc := netloc pe\<rparr>))"
    by (elim conjE)
  from 1 2 3 4 5 6 have h: "urlparse (cpython_urllib (\<lambda>h. None))
          ''http://internal-host:9000/test-bucket/report.csv?X-Amz-Expires=60'' = Inr p
        \<and> urlparse (cpython_urllib (\<lambda>h. None)) ''https://files.example.org:9001'' = Inr pe
        \<and> netloc pe \<noteq> []
        \<and> scheme p \<in> set uses_params \<and> scheme pe \<in> set uses_params
        \<and> ((path p = [] \<and> params p = []) \<or> take 1 (path p) = ''/'')"
    by (intro conjI)
  note u = t1[rule_format, OF h]
  from u have a: "replace_url_endpoint (cpython_urllib (\<lambda>h. None))
      ''http://internal-host:9000/test-bucket/report.csv?X-Amz-Expires=60''
      (Some ''https://files.example.org:9001'')
     = Inr ''https://files.example.org:9001/test-bucket/report.csv?X-Amz-Expires=60''"
    by (simp add: p_def pe_def)
  from u have b: "\<exists>r. replace_url_endpoint (cpython_urllib (\<lambda>h. None))
          ''http://internal-host:9000/test-bucket/report.csv?X-Amz-Expires=60''
          (Some ''https://files.example.org:9001'') = Inr r
        \<and> urlparse (cpython_urllib (\<lambda>h. None)) r
          = Inr (p\<lparr>scheme := scheme pe, netloc := netloc pe\<rparr>)"
    by (elim conjE)
  have c: "p\<lparr>scheme := scheme pe, netloc := netloc pe\<rparr>
      = \<lparr>scheme = ''https'', netloc = ''files.example.org:9001'',
                 path = ''/test-bucket/report.csv'', params = [],
                 query = ''X-Amz-Expires=60'', fragment = []\<rparr>"
    by (simp add: p_def pe_def)
  from a b show ?thesis unfolding c by (intro conjI)
qed

section \<open>The listing\<close>

text \<open>
  C6. When the backend answers the listing of the bucket and its response has no
  \<open>Contents\<close> entry, as for an empty bucket, \<open>get_file_list\<close> returns the empty list; it
  raises nothing, and the endpoint answers with status 200 and the empty list.
\<close>

theorem empty_bucket_lists_nothing:
  assumes "list_objects backend (client self) (bucket_name self) = Inr response"
    and "map_of response ''Contents'' = None"
  shows "get_file_list backend self = Inr (PList [])
     \<and> fastapi_response (importer_get_file_list backend self)
         = \<lparr>status_code = 200, body = PList []\<rparr>"
proof -
  from assms have "file_list_body backend self = Inr (PList [])"
    by (simp add: file_list_body_def dict_get_def)
  then have g: "get_file_list backend self = Inr (PList [])"
    by (simp add: get_file_list_def wrap_errors_def)
  then show ?thesis
    by (simp add: importer_get_file_list_def to_http_exception_def)
qed

theorem empty_bucket_lists_nothing_witness:
  "get_file_list example_backend example_service = Inr (PList [])
   \<and> fastapi_response (importer_get_file_list example_backend example_service)
       = \<lparr>status_code = 200, body = PList []\<rparr>"
proof -
  have r: "list_objects example_backend (client example_service) (bucket_name example_service)
      = Inr [(''Name'', PStr ''test-bucket''), (''IsTruncated'', PBool False)]"
    by (simp add: example_backend_def example_service_eq)
  have n: "map_of [(''Name'', PStr ''test-bucket''), (''IsTruncated'', PBool False)] ''Contents''
      = None"
    by simp
  from empty_bucket_lists_nothing[OF r n] show ?thesis .
qed

section \<open>The service and its client\<close>














section \<open>The git workflow\<close>

lemma run_workflow_clone_raises:
  assumes "clone_from g repo_url clone_dir w = (Inl e, w1)"
    and "\<not> is_GitCommandError e" and "\<not> is_RepositoryCloneError e"
  shows "run_workflow g repo_url csv_file_path clone_dir w = (Inl e, w1)"
  using assms by (simp add: run_workflow_def clone_repo_def)

lemma run_workflow_clone_GitCommandError:
  assumes "clone_from g repo_url clone_dir w = (Inl (GitCommandError m), w1)"
  shows "run_workflow g repo_url csv_file_path clone_dir w
     = (Inr ''Workflow Failed at: Repository Cloning.'', w1)"
  using assms by (simp add: run_workflow_def clone_repo_def)

lemma commit_repo_returns:
  assumes "\<And>e w1. commit_push g r file_to_add commit_message w = (Inl e, w1) \<Longrightarrow> is_Exception e"
  shows "\<exists>s w1. commit_repo g (Some r) file_to_add commit_message w = (Inr s, w1)"
proof (cases "commit_push g r file_to_add commit_message w")
  case (Pair res w1)
  show ?thesis
  proof (cases res)
    case (Inl e)
    with Pair assms have "is_Exception e" by simp
    with Pair Inl show ?thesis by (simp add: commit_repo_def)
  next
    case (Inr s)
    with Pair show ?thesis by (simp add: commit_repo_def)
  qed
qed

text \<open>
  C8. \<open>run_workflow\<close> does not turn every failure into a string. \<open>clone_repo\<close> catches
  \<open>GitCommandError\<close> only, and \<open>run_workflow\<close> catches \<open>RepositoryCloneError\<close> only: an
  exception of another class raised by the clone, here the \<open>ValueError\<close> of a repository
  URL with a NUL character, leaves \<open>run_workflow\<close> as it is.
\<close>

theorem run_workflow_raises_ValueError:
  "run_workflow (git_clone_raises (ValueError ''embedded null byte''))
     (''https://example.org/repo.git'' @ [CHR 0x00]) ''data/report.csv'' ''temp'' (0::nat)
   = (Inl (ValueError ''embedded null byte''), 0)"
  by (simp add: run_workflow_def clone_repo_def git_clone_raises_def)

text \<open>
  C10. \<open>commit_repo\<close> called with \<open>None\<close> for the repository calls nothing of the git
  library: whatever the library, the world is left as it was, and the result is the fixed
  string \<open>Commit Failed: Repository not cloned.\<close>; nothing is raised.
\<close>

theorem commit_repo_None:
  "commit_repo g None file_to_add commit_message w =
     (Inr ''Commit Failed: Repository not cloned.'', w)"
  by (simp add: commit_repo_def)

end
